theory Spec2Isabelle
  imports Complex_Main
begin

section \<open>Numbers of the JavaScript runtime\<close>

text \<open>
  JavaScript strings are modelled as \<open>string\<close>; a character outside ASCII stands for
  the bytes of its UTF-8 encoding.

  JavaScript numbers are double-precision floating-point numbers. The numbers that hold
  indices, rows and columns are whole numbers and are modelled as \<open>int\<close>. Every whole
  number up to \<open>2 ^ 53\<close> in magnitude is a double; a sum, a difference or a product
  beyond that is rounded to the nearest double, and a tie goes to the double with the
  even significand. \<open>toDouble n\<close> is that double for the exact result \<open>n\<close>, and the
  definitions below apply it where the source adds, subtracts or multiplies numbers
  that come from the input. A result from about \<open>2 ^ 1024\<close> on is \<^verbatim>\<open>Infinity\<close> in the
  source and has no value here, and the quotients, the remainders and the decimal digits
  of a number are the exact ones, as they are in the source for numbers up to \<open>2 ^ 53\<close>:
  the properties below are stated for numbers in that range.
\<close>

text \<open>The number of binary digits of a positive number.\<close>

function bitLength :: "int \<Rightarrow> nat" where
  "bitLength n = (if n \<le> 0 then 0 else Suc (bitLength (n div 2)))"
  by pat_completeness auto
termination
  by (relation "measure nat") auto

text \<open>
  The double nearest to a whole number: beyond \<open>2 ^ 53\<close> the significand \<open>q\<close> keeps 53
  binary digits, and the \<open>e\<close> digits \<open>r\<close> behind them round it up when they are more
  than half a unit, or exactly half a unit with \<open>q\<close> odd.
\<close>

definition toDouble :: "int \<Rightarrow> int" where
  "toDouble n =
     (let a = \<bar>n\<bar>
      in if a < 2 ^ 53 then n
         else
           (let e = bitLength a - 53;
                q = a div 2 ^ e;
                r = a mod 2 ^ e;
                m = (if 2 * r > 2 ^ e \<or> (2 * r = 2 ^ e \<and> odd q) then q + 1 else q)
            in sgn n * (m * 2 ^ e)))"

section \<open>Column letters\<close>

text \<open>
  \<^verbatim>\<open>columnIndexToLetter\<close>: the loop
  \<^verbatim>\<open>while (temp >= 0) { letter = String.fromCharCode((temp % 26) + 65) + letter;
  temp = Math.floor(temp / 26) - 1; }\<close> with its two variables as arguments. For an
  index up to \<open>2 ^ 53\<close> the quotient that \<^verbatim>\<open>Math.floor\<close> gets is below \<open>2 ^ 49\<close>, where
  doubles lie \<open>1 / 16\<close> apart or closer, while a quotient that is no whole number is
  \<open>1 / 26\<close> or more away from the next one: the division rounds to a number with the
  same whole part.
\<close>

function columnIndexToLetter_loop :: "int \<Rightarrow> string \<Rightarrow> string" where
  "columnIndexToLetter_loop temp letter =
     (if temp \<ge> 0
      then columnIndexToLetter_loop (temp div 26 - 1) (char_of (temp mod 26 + 65) # letter)
      else letter)"
  by pat_completeness auto
termination
  by (relation "measure (\<lambda>(temp, letter). nat (temp + 1))") auto

definition columnIndexToLetter :: "int \<Rightarrow> string" where
  "columnIndexToLetter columnIndex = columnIndexToLetter_loop columnIndex []"

text \<open>
  \<^verbatim>\<open>columnLetterToIndex\<close>: \<^verbatim>\<open>index = index * 26 + (letter.charCodeAt(i) - 64)\<close>
  over the characters from left to right, then \<^verbatim>\<open>index - 1\<close>; the product, the sum
  and the difference are rounded.
\<close>

definition columnLetterToIndex :: "string \<Rightarrow> int" where
  "columnLetterToIndex letter =
     toDouble
       (foldl (\<lambda>index c. toDouble (toDouble (index * 26) + (of_char c - 64))) 0 letter - 1)"

section \<open>Strings and numbers of the JavaScript runtime\<close>

text \<open>\<^verbatim>\<open>s.includes(t)\<close>: \<open>t\<close> occurs in \<open>s\<close> as a contiguous substring.\<close>

fun str_includes :: "string \<Rightarrow> string \<Rightarrow> bool" where
  "str_includes [] t = (t = [])"
| "str_includes (c # s) t = (take (length t) (c # s) = t \<or> str_includes s t)"

definition isUpperAZ :: "char \<Rightarrow> bool" where
  "isUpperAZ c \<longleftrightarrow> (65::int) \<le> of_char c \<and> of_char c \<le> (90::int)"

definition isDigit :: "char \<Rightarrow> bool" where
  "isDigit c \<longleftrightarrow> (48::int) \<le> of_char c \<and> of_char c \<le> (57::int)"

text \<open>
  \<^verbatim>\<open>parseInt(s, 10)\<close> on a string of decimal digits: the double nearest to the
  number that the digits write.
\<close>

definition parseInt :: "string \<Rightarrow> int" where
  "parseInt s = toDouble (foldl (\<lambda>n c. n * 10 + (of_char c - 48)) 0 s)"

text \<open>
  \<^verbatim>\<open>String(n)\<close> for a whole number \<open>n\<close> up to \<open>2 ^ 53\<close> in magnitude: its decimal
  digits (\<open>showDigits\<close>, for \<open>n \<ge> 0\<close>), with a minus sign below zero.
\<close>

function showDigits :: "int \<Rightarrow> string" where
  "showDigits n =
     (if n < 10 then [char_of (48 + n)]
      else showDigits (n div 10) @ [char_of (48 + n mod 10)])"
  by pat_completeness auto
termination
  by (relation "measure nat") auto

definition showInt :: "int \<Rightarrow> string" where
  "showInt i = (if i < 0 then CHR ''-'' # showDigits (- i) else showDigits i)"

text \<open>
  The line terminators that \<^verbatim>\<open>.\<close> of a regular expression does not match:
  LF, CR, U+2028 and U+2029 (the last two as UTF-8).
\<close>

definition hasLineTerminator :: "string \<Rightarrow> bool" where
  "hasLineTerminator s \<longleftrightarrow>
     str_includes s [CHR 0x0A] \<or> str_includes s [CHR 0x0D] \<or>
     str_includes s [CHR 0xE2, CHR 0x80, CHR 0xA8] \<or>
     str_includes s [CHR 0xE2, CHR 0x80, CHR 0xA9]"

section \<open>Chart data ranges\<close>

record excelRange =
  sheetName :: string
  startCol :: int
  startRow :: int
  endCol :: int
  endRow :: int

text \<open>
  The local \<^verbatim>\<open>colToNum\<close> of \<^verbatim>\<open>parseExcelRange\<close> (A = 1, B = 2, ...):
  \<^verbatim>\<open>num = num * 26 + (col.charCodeAt(i) - 64)\<close> over the characters.
\<close>

definition colToNum1 :: "string \<Rightarrow> int" where
  "colToNum1 col = foldl (\<lambda>num c. toDouble (toDouble (num * 26) + (of_char c - 64))) 0 col"

text \<open>\<^verbatim>\<open>\$?\<close>: an optional dollar sign.\<close>

fun dropDollar :: "string \<Rightarrow> string" where
  "dropDollar [] = []"
| "dropDollar (c # s) = (if c = CHR ''$'' then s else c # s)"

text \<open>
  \<^verbatim>\<open>\$?([A-Z]+)\$?(\d+)\<close> at the start of a string: the letters, the digits and
  what follows them. Each quantifier is followed by a character its class excludes, so
  the greedy match is the only one.
\<close>

definition matchCell :: "string \<Rightarrow> (string \<times> string \<times> string) option" where
  "matchCell s =
     (let s1 = dropDollar s;
          col = takeWhile isUpperAZ s1;
          s2 = dropDollar (dropWhile isUpperAZ s1);
          row = takeWhile isDigit s2
      in if col = [] \<or> row = [] then None else Some (col, row, dropWhile isDigit s2))"

text \<open>
  \<^verbatim>\<open>\$?([A-Z]+)\$?(\d+)(?::\$?([A-Z]+)\$?(\d+))?$\<close>: what follows the \<^verbatim>\<open>!\<close>, up to
  the end of the string. The result holds groups 2 to 5.
\<close>

definition matchAfterBang ::
    "string \<Rightarrow> (string \<times> string \<times> (string \<times> string) option) option" where
  "matchAfterBang s =
     (case matchCell s of
        None \<Rightarrow> None
      | Some (c1, r1, t) \<Rightarrow>
          (case t of
             [] \<Rightarrow> Some (c1, r1, None)
           | x # t' \<Rightarrow>
               if x = CHR '':'' then
                 (case matchCell t' of
                    Some (c2, r2, []) \<Rightarrow> Some (c1, r1, Some (c2, r2))
                  | _ \<Rightarrow> None)
               else None))"

text \<open>\<^verbatim>\<open>match[1].replace(/^'|'$/g, '')\<close>: one quote off each end.\<close>

definition stripQuotes :: "string \<Rightarrow> string" where
  "stripQuotes s =
     (let s1 = (case s of [] \<Rightarrow> [] | c # r \<Rightarrow> if c = CHR 0x27 then r else s)
      in if s1 \<noteq> [] \<and> last s1 = CHR 0x27 then butlast s1 else s1)"

definition buildRange :: "string \<Rightarrow> string \<times> string \<times> (string \<times> string) option \<Rightarrow> excelRange" where
  "buildRange sheet m =
     (case m of (startColStr, startRowStr, e) \<Rightarrow>
        \<lparr> sheetName = stripQuotes sheet,
          startCol = colToNum1 startColStr,
          startRow = parseInt startRowStr,
          endCol = colToNum1 (case e of Some (endColStr, _) \<Rightarrow> endColStr | None \<Rightarrow> startColStr),
          endRow = (case e of Some (_, endRowStr) \<Rightarrow> parseInt endRowStr | None \<Rightarrow> parseInt startRowStr) \<rparr>)"

text \<open>
  \<^verbatim>\<open>^(.+?)!\<close> and the rest: the lazy group takes the shortest non-empty prefix that is
  free of line terminators, is followed by \<^verbatim>\<open>!\<close>, and leaves a remainder that matches.
  \<open>pre\<close> is the prefix passed so far.
\<close>

fun parseExcelRange_from :: "string \<Rightarrow> string \<Rightarrow> excelRange option" where
  "parseExcelRange_from pre [] = None"
| "parseExcelRange_from pre (c # cs) =
     (if hasLineTerminator pre then None
      else if c = CHR ''!'' \<and> pre \<noteq> [] then
        (case matchAfterBang cs of
           Some m \<Rightarrow> Some (buildRange pre m)
         | None \<Rightarrow> parseExcelRange_from (pre @ [c]) cs)
      else parseExcelRange_from (pre @ [c]) cs)"

definition parseExcelRange :: "string \<Rightarrow> excelRange option" where
  "parseExcelRange rng = parseExcelRange_from [] rng"

text \<open>
  \<^verbatim>\<open>numToCol\<close>: the loop \<^verbatim>\<open>while (num > 0)\<close> with its two variables, for a number
  up to \<open>2 ^ 53\<close> (\<^verbatim>\<open>num - 1\<close>, the remainder and \<^verbatim>\<open>Math.floor((num - 1) / 26)\<close> are
  exact then, as in \<open>columnIndexToLetter_loop\<close>).
\<close>

function numToCol_loop :: "int \<Rightarrow> string \<Rightarrow> string" where
  "numToCol_loop num col =
     (if num > 0
      then numToCol_loop ((num - 1) div 26) (char_of (65 + (num - 1) mod 26) # col)
      else col)"
  by pat_completeness auto
termination
  by (relation "measure (\<lambda>(num, col). nat num)") auto

definition numToCol :: "int \<Rightarrow> string" where
  "numToCol num = numToCol_loop num []"

text \<open>
  \<^verbatim>\<open>mergeChartDataRanges\<close>. The four running bounds start at \<^verbatim>\<open>Infinity\<close> and
  \<^verbatim>\<open>-Infinity\<close> and become finite together at the first reference that parses (its
  numbers are finite here): \<open>None\<close> is that initial state,
  \<open>Some (minCol, minRow, maxCol, maxRow)\<close> the bounds. The test
  \<^verbatim>\<open>minCol === Infinity || minRow === Infinity\<close> is the test for the initial state, and
  \<^verbatim>\<open>ranges[0] || ''\<close> is the first reference.
\<close>

type_synonym bounds = "int \<times> int \<times> int \<times> int"

definition mergeStep :: "bounds option \<Rightarrow> string \<Rightarrow> bounds option" where
  "mergeStep acc rng =
     (case parseExcelRange rng of
        None \<Rightarrow> acc
      | Some parsed \<Rightarrow>
          (case acc of
             None \<Rightarrow>
               Some (min (startCol parsed) (endCol parsed), min (startRow parsed) (endRow parsed),
                     max (startCol parsed) (endCol parsed), max (startRow parsed) (endRow parsed))
           | Some (minCol, minRow, maxCol, maxRow) \<Rightarrow>
               Some (min (min minCol (startCol parsed)) (endCol parsed),
                     min (min minRow (startRow parsed)) (endRow parsed),
                     max (max maxCol (startCol parsed)) (endCol parsed),
                     max (max maxRow (startRow parsed)) (endRow parsed))))"

definition mergeChartDataRanges :: "string list \<Rightarrow> string" where
  "mergeChartDataRanges ranges =
     (if ranges = [] then []
      else
        (case foldl mergeStep None ranges of
           None \<Rightarrow> hd ranges
         | Some (minCol, minRow, maxCol, maxRow) \<Rightarrow>
             numToCol minCol @ showInt minRow @ '':'' @ numToCol maxCol @ showInt maxRow))"

text \<open>The column and row numbers that a list of parsed references mentions.\<close>

definition rangeCols :: "excelRange list \<Rightarrow> int set" where
  "rangeCols ps = set (map startCol ps) \<union> set (map endCol ps)"

definition rangeRows :: "excelRange list \<Rightarrow> int set" where
  "rangeRows ps = set (map startRow ps) \<union> set (map endRow ps)"

section \<open>Number formats\<close>

text \<open>
  \<^verbatim>\<open>toUpperCase\<close> and \<^verbatim>\<open>toLowerCase\<close> on the letters A to Z. The source applies them
  only before looking for ASCII probes (\<^verbatim>\<open>E+\<close>, \<^verbatim>\<open>yyyy\<close>, ...), and no character
  outside ASCII maps to a letter of these probes.
\<close>

definition toUpperCase :: "string \<Rightarrow> string" where
  "toUpperCase s =
     map (\<lambda>c. if (97::int) \<le> of_char c \<and> of_char c \<le> (122::int)
                then char_of (of_char c - (32::int)) else c) s"

definition toLowerCase :: "string \<Rightarrow> string" where
  "toLowerCase s =
     map (\<lambda>c. if (65::int) \<le> of_char c \<and> of_char c \<le> (90::int)
                then char_of (of_char c + (32::int)) else c) s"

text \<open>
  The object that \<^verbatim>\<open>parseNumFormat\<close> builds: every key is optional, \<open>None\<close> is a key
  that is not set.
\<close>

record numFormatInfo =
  fmtType :: "string option"
  decimalPlaces :: "int option"
  isPercent :: "bool option"
  isCurrency :: "bool option"
  isScientific :: "bool option"
  hasThousandsSeparator :: "bool option"
  isDateTime :: "bool option"
  hasNegativeFormat :: "bool option"
  currencySymbol :: "string option"

definition emptyInfo :: numFormatInfo where
  "emptyInfo = \<lparr> fmtType = None, decimalPlaces = None, isPercent = None, isCurrency = None,
     isScientific = None, hasThousandsSeparator = None, isDateTime = None,
     hasNegativeFormat = None, currencySymbol = None \<rparr>"

text \<open>\<^verbatim>\<open>{ ...a, ...b }\<close>: the keys of \<open>b\<close> win over those of \<open>a\<close>.\<close>

definition orElse :: "'a option \<Rightarrow> 'a option \<Rightarrow> 'a option" where
  "orElse x y = (case x of Some v \<Rightarrow> Some v | None \<Rightarrow> y)"

definition spread :: "numFormatInfo \<Rightarrow> numFormatInfo \<Rightarrow> numFormatInfo" where
  "spread a b =
     \<lparr> fmtType = orElse (fmtType b) (fmtType a),
       decimalPlaces = orElse (decimalPlaces b) (decimalPlaces a),
       isPercent = orElse (isPercent b) (isPercent a),
       isCurrency = orElse (isCurrency b) (isCurrency a),
       isScientific = orElse (isScientific b) (isScientific a),
       hasThousandsSeparator = orElse (hasThousandsSeparator b) (hasThousandsSeparator a),
       isDateTime = orElse (isDateTime b) (isDateTime a),
       hasNegativeFormat = orElse (hasNegativeFormat b) (hasNegativeFormat a),
       currencySymbol = orElse (currencySymbol b) (currencySymbol a) \<rparr>"

text \<open>\<^verbatim>\<open>Object.keys(result).length > 0\<close>.\<close>

definition hasKeys :: "numFormatInfo \<Rightarrow> bool" where
  "hasKeys r \<longleftrightarrow>
     fmtType r \<noteq> None \<or> decimalPlaces r \<noteq> None \<or> isPercent r \<noteq> None \<or>
     isCurrency r \<noteq> None \<or> isScientific r \<noteq> None \<or> hasThousandsSeparator r \<noteq> None \<or>
     isDateTime r \<noteq> None \<or> hasNegativeFormat r \<noteq> None \<or> currencySymbol r \<noteq> None"

text \<open>
  \<^verbatim>\<open>numFmt.match(/\.([0#?]+)/)\<close>: group 1 of the leftmost match, the longest run of
  \<^verbatim>\<open>0\<close>, \<^verbatim>\<open>#\<close> and \<^verbatim>\<open>?\<close> after the first dot that has such a run.
\<close>

definition isPlaceholder :: "char \<Rightarrow> bool" where
  "isPlaceholder c \<longleftrightarrow> c = CHR ''0'' \<or> c = CHR ''#'' \<or> c = CHR ''?''"

fun decimalMatch :: "string \<Rightarrow> string option" where
  "decimalMatch [] = None"
| "decimalMatch (c # s) =
     (if c = CHR ''.'' \<and> takeWhile isPlaceholder s \<noteq> []
      then Some (takeWhile isPlaceholder s)
      else decimalMatch s)"

text \<open>Currency signs outside ASCII, as UTF-8.\<close>

definition yen :: string where "yen = [CHR 0xC2, CHR 0xA5]"
definition euro :: string where "euro = [CHR 0xE2, CHR 0x82, CHR 0xAC]"
definition pound :: string where "pound = [CHR 0xC2, CHR 0xA3]"
definition quote :: string where "quote = [CHR 0x22]"

text \<open>The table \<^verbatim>\<open>builtInFormats\<close>, in the order of the source.\<close>

definition numberFmt :: "int \<Rightarrow> bool \<Rightarrow> numFormatInfo" where
  "numberFmt d sep = emptyInfo \<lparr> fmtType := Some ''number'', decimalPlaces := Some d,
     hasThousandsSeparator := (if sep then Some True else None) \<rparr>"

definition percentFmt :: "int \<Rightarrow> numFormatInfo" where
  "percentFmt d = emptyInfo \<lparr> fmtType := Some ''percent'', decimalPlaces := Some d,
     isPercent := Some True \<rparr>"

definition scientificFmt :: "int \<Rightarrow> numFormatInfo" where
  "scientificFmt d = emptyInfo \<lparr> fmtType := Some ''scientific'', decimalPlaces := Some d,
     isScientific := Some True \<rparr>"

definition currencyFmt :: "string \<Rightarrow> int \<Rightarrow> string \<Rightarrow> numFormatInfo" where
  "currencyFmt t d symbol = emptyInfo \<lparr> fmtType := Some t, decimalPlaces := Some d,
     isCurrency := Some True, currencySymbol := Some symbol \<rparr>"

definition dateFmt :: "string \<Rightarrow> numFormatInfo" where
  "dateFmt t = emptyInfo \<lparr> fmtType := Some t, isDateTime := Some True \<rparr>"

definition builtInFormats :: "(string \<times> numFormatInfo) list" where
  "builtInFormats =
   [ (''General'', emptyInfo \<lparr> fmtType := Some ''general'' \<rparr>),
     (''0'', numberFmt 0 False),
     (''0.00'', numberFmt 2 False),
     (''#,##0'', numberFmt 0 True),
     (''#,##0.00'', numberFmt 2 True),
     (''#,##0.0'', numberFmt 1 True),
     (''#,##0.000'', numberFmt 3 True),
     (''#,##0.0000'', numberFmt 4 True),
     (''0.0'', numberFmt 1 False),
     (''0.000'', numberFmt 3 False),
     (''0.0000'', numberFmt 4 False),
     (''0%'', percentFmt 0),
     (''0.0%'', percentFmt 1),
     (''0.00%'', percentFmt 2),
     (''0.000%'', percentFmt 3),
     (''0.00E+00'', scientificFmt 2),
     (''##0.0E+0'', scientificFmt 1),
     (yen @ ''#,##0'', currencyFmt ''currency'' 0 yen),
     (yen @ ''#,##0.00'', currencyFmt ''currency'' 2 yen),
     (quote @ yen @ quote @ ''#,##0'', currencyFmt ''currency'' 0 yen),
     (quote @ yen @ quote @ ''#,##0.00'', currencyFmt ''currency'' 2 yen),
     (''$#,##0'', currencyFmt ''currency'' 0 ''$''),
     (''$#,##0.00'', currencyFmt ''currency'' 2 ''$''),
     (quote @ ''$'' @ quote @ ''#,##0'', currencyFmt ''currency'' 0 ''$''),
     (quote @ ''$'' @ quote @ ''#,##0.00'', currencyFmt ''currency'' 2 ''$''),
     (''_-'' @ yen @ ''* #,##0_-'', currencyFmt ''accounting'' 0 yen),
     (''_-'' @ yen @ ''* #,##0.00_-'', currencyFmt ''accounting'' 2 yen),
     (''yyyy-mm-dd'', dateFmt ''date''),
     (''yyyy/mm/dd'', dateFmt ''date''),
     (''yyyy'' @ [CHR 0xE5, CHR 0xB9, CHR 0xB4] @ ''m'' @ [CHR 0xE6, CHR 0x9C, CHR 0x88] @
        ''d'' @ [CHR 0xE6, CHR 0x97, CHR 0xA5], dateFmt ''date''),
     (''mm-dd-yy'', dateFmt ''date''),
     (''m/d/yy'', dateFmt ''date''),
     (''d-mmm-yy'', dateFmt ''date''),
     (''d-mmm'', dateFmt ''date''),
     (''mmm-yy'', dateFmt ''date''),
     (''h:mm'', dateFmt ''time''),
     (''h:mm:ss'', dateFmt ''time''),
     (''h:mm AM/PM'', dateFmt ''time''),
     (''h:mm:ss AM/PM'', dateFmt ''time''),
     (''yyyy-mm-dd h:mm'', dateFmt ''datetime''),
     (''yyyy-mm-dd h:mm:ss'', dateFmt ''datetime''),
     (''m/d/yy h:mm'', dateFmt ''datetime''),
     (''@'', emptyInfo \<lparr> fmtType := Some ''text'' \<rparr>) ]"

definition dateTimePatterns :: "string list" where
  "dateTimePatterns = [''yyyy'', ''yy'', ''mm'', ''dd'', ''hh'', ''ss'', ''AM/PM'', ''am/pm'']"

text \<open>
  \<^verbatim>\<open>parseNumFormat\<close>. The probes set their keys in the order of the source; a format
  of the table returns \<^verbatim>\<open>{ ...builtInFormats[numFmt], ...result }\<close>. A name that
  \<^verbatim>\<open>builtInFormats[numFmt]\<close> finds on the prototype of the table has no own keys to
  spread, so it returns \<open>result\<close> as the last line does.
\<close>

definition parseNumFormat :: "string \<Rightarrow> numFormatInfo option" where
  "parseNumFormat numFmt =
     (let r1 = (if str_includes numFmt ''%'' then emptyInfo \<lparr> isPercent := Some True \<rparr> else emptyInfo);
          r2 = (if str_includes numFmt ''$'' \<or> str_includes numFmt yen \<or>
                   str_includes numFmt euro \<or> str_includes numFmt pound
                then r1 \<lparr> isCurrency := Some True \<rparr> else r1);
          r3 = (if str_includes (toUpperCase numFmt) ''E+'' \<or> str_includes (toUpperCase numFmt) ''E-''
                then r2 \<lparr> isScientific := Some True \<rparr> else r2);
          r4 = (if str_includes numFmt '','' then r3 \<lparr> hasThousandsSeparator := Some True \<rparr> else r3);
          r5 = (case decimalMatch numFmt of
                  Some g \<Rightarrow> r4 \<lparr> decimalPlaces := Some (int (length g)) \<rparr>
                | None \<Rightarrow> r4 \<lparr> decimalPlaces := Some 0 \<rparr>);
          r6 = (if list_ex (\<lambda>pattern. str_includes (toLowerCase numFmt) (toLowerCase pattern))
                     dateTimePatterns
                then r5 \<lparr> isDateTime := Some True \<rparr> else r5);
          result = (if str_includes numFmt ''[Red]'' \<or>
                       (str_includes numFmt ''('' \<and> str_includes numFmt '')'')
                    then r6 \<lparr> hasNegativeFormat := Some True \<rparr> else r6)
      in case map_of builtInFormats numFmt of
           Some b \<Rightarrow> Some (spread b result)
         | None \<Rightarrow> if hasKeys result then Some result else None)"

section \<open>Matches on markup\<close>

text \<open>
  The extractors read XML with regular expressions of a few shapes. Each shape is a
  function here; \<open>startsWith s lit\<close> is a literal at the start of \<open>s\<close>.
\<close>

definition startsWith :: "string \<Rightarrow> string \<Rightarrow> bool" where
  "startsWith s lit \<longleftrightarrow> take (length lit) s = lit"

definition gt :: char where "gt = CHR 0x3E"
definition lt :: char where "lt = CHR 0x3C"
definition dquote :: char where "dquote = CHR 0x22"

text \<open>
  The shape \<^verbatim>\<open>[^>]*attr="(v)"\<close> at the start of \<open>t\<close>: \<open>attr\<close> ends with the equals sign
  and the opening quote, and the value \<open>v\<close> is a run of at least \<open>least\<close> characters of
  the class \<open>cls\<close> that the closing quote follows (no class used holds the quote, so the
  longest run is the only one that the quote can follow). The first quantifier is
  greedy: of the offsets \<open>j\<close> inside the run of characters other than the closing angle
  bracket, the greatest at which the rest matches is taken. The result is the value and
  the length of the whole match.
\<close>

definition attrAt :: "string \<Rightarrow> (char \<Rightarrow> bool) \<Rightarrow> nat \<Rightarrow> string \<Rightarrow> (string \<times> nat) option" where
  "attrAt attr cls least t =
     (let run = takeWhile (\<lambda>c. c \<noteq> gt) t;
          ok = (\<lambda>j. startsWith (drop j t) attr \<and>
                     least \<le> length (takeWhile cls (drop (j + length attr) t)) \<and>
                     startsWith (dropWhile cls (drop (j + length attr) t)) [dquote])
      in case filter ok (rev [0 ..< Suc (length run)]) of
           [] \<Rightarrow> None
         | j # _ \<Rightarrow>
             Some (takeWhile cls (drop (j + length attr) t),
                   j + length attr + length (takeWhile cls (drop (j + length attr) t)) + 1))"

text \<open>
  \<^verbatim>\<open>s.match(/lit[^>]*attr="(v)"/)\<close>: the leftmost place where the literal \<open>lit\<close> starts a
  match; the result is group 1.
\<close>

fun matchAttr :: "string \<Rightarrow> string \<Rightarrow> (char \<Rightarrow> bool) \<Rightarrow> nat \<Rightarrow> string \<Rightarrow> string option" where
  "matchAttr lit attr cls least [] = None"
| "matchAttr lit attr cls least (c # s) =
     (if startsWith (c # s) lit then
        (case attrAt attr cls least (drop (length lit) (c # s)) of
           Some (v, n) \<Rightarrow> Some v
         | None \<Rightarrow> matchAttr lit attr cls least s)
      else matchAttr lit attr cls least s)"

text \<open>
  \<^verbatim>\<open>s.matchAll(/lit[^>]*attr="(v)"/g)\<close>: group 1 of every match from left to right. A
  match is looked for again only behind the end of the one before; \<open>skip\<close> counts the
  characters of the last match that are still to pass.
\<close>

fun matchAllAttr ::
    "string \<Rightarrow> string \<Rightarrow> (char \<Rightarrow> bool) \<Rightarrow> nat \<Rightarrow> nat \<Rightarrow> string \<Rightarrow> string list" where
  "matchAllAttr lit attr cls least skip [] = []"
| "matchAllAttr lit attr cls least skip (c # s) =
     (if skip > 0 then matchAllAttr lit attr cls least (skip - 1) s
      else if startsWith (c # s) lit then
        (case attrAt attr cls least (drop (length lit) (c # s)) of
           Some (v, n) \<Rightarrow> v # matchAllAttr lit attr cls least (length lit + n - 1) s
         | None \<Rightarrow> matchAllAttr lit attr cls least 0 s)
      else matchAllAttr lit attr cls least 0 s)"

text \<open>The text behind the first occurrence of a literal.\<close>

fun afterFirst :: "string \<Rightarrow> string \<Rightarrow> string option" where
  "afterFirst lit [] = (if lit = [] then Some [] else None)"
| "afterFirst lit (c # s) =
     (if startsWith (c # s) lit then Some (drop (length lit) (c # s)) else afterFirst lit s)"

text \<open>The text before the first occurrence of a literal.\<close>

fun beforeFirst :: "string \<Rightarrow> string \<Rightarrow> string option" where
  "beforeFirst lit [] = (if lit = [] then Some [] else None)"
| "beforeFirst lit (c # s) =
     (if startsWith (c # s) lit then Some []
      else map_option (\<lambda>r. c # r) (beforeFirst lit s))"

text \<open>
  The shape \<^verbatim>\<open>open([^<]+)close\<close> at the start of \<open>s\<close>, where \<open>close\<close> begins with the
  opening angle bracket: the run stops at the first such bracket, and \<open>close\<close> has to
  start there.
\<close>

definition elementTextAt :: "string \<Rightarrow> string \<Rightarrow> string \<Rightarrow> string option" where
  "elementTextAt opn cls s =
     (if startsWith s opn \<and>
         takeWhile (\<lambda>c. c \<noteq> lt) (drop (length opn) s) \<noteq> [] \<and>
         startsWith (dropWhile (\<lambda>c. c \<noteq> lt) (drop (length opn) s)) cls
      then Some (takeWhile (\<lambda>c. c \<noteq> lt) (drop (length opn) s))
      else None)"

text \<open>\<^verbatim>\<open>s.match(/open([^<]+)close/)\<close>: group 1 of the leftmost match.\<close>

fun matchElementText :: "string \<Rightarrow> string \<Rightarrow> string \<Rightarrow> string option" where
  "matchElementText opn cls [] = None"
| "matchElementText opn cls (c # s) =
     (case elementTextAt opn cls (c # s) of
        Some v \<Rightarrow> Some v
      | None \<Rightarrow> matchElementText opn cls s)"

text \<open>\<^verbatim>\<open>s.matchAll(/open([^<]+)close/g)\<close>: group 1 of every match, left to right.\<close>

fun matchAllElementText :: "string \<Rightarrow> string \<Rightarrow> nat \<Rightarrow> string \<Rightarrow> string list" where
  "matchAllElementText opn cls skip [] = []"
| "matchAllElementText opn cls skip (c # s) =
     (if skip > 0 then matchAllElementText opn cls (skip - 1) s
      else
        (case elementTextAt opn cls (c # s) of
           Some v \<Rightarrow> v # matchAllElementText opn cls (length opn + length v + length cls - 1) s
         | None \<Rightarrow> matchAllElementText opn cls 0 s))"

section \<open>Charts\<close>

text \<open>The closed set of \<^verbatim>\<open>ImportedChart['chartType']\<close>.\<close>

datatype chartType =
    Column | Bar | Line | Area | Pie | Doughnut | Scatter | Radar | Bubble | Combo
  | StackedBar | PercentStackedBar | StackedArea | PercentStackedArea
  | WordCloud | Funnel | Relationship | Waterfall | Treemap | Sankey | Heatmap | BoxPlot
  | Unknown

text \<open>
  \<^verbatim>\<open>chartXml.match(/<c:grouping[^>]*val="([^"]*)"/)\<close> and the same for
  \<^verbatim>\<open>c:barDir\<close>.
\<close>

definition groupingMatch :: "string \<Rightarrow> string option" where
  "groupingMatch chartXml = matchAttr ''<c:grouping'' (''val='' @ [dquote]) (\<lambda>c. c \<noteq> dquote) 0 chartXml"

definition barDirMatch :: "string \<Rightarrow> string option" where
  "barDirMatch chartXml = matchAttr ''<c:barDir'' (''val='' @ [dquote]) (\<lambda>c. c \<noteq> dquote) 0 chartXml"

text \<open>
  The chain of tests on the chart XML in \<^verbatim>\<open>parseChartsFromXlsx\<close>; \<open>Column\<close> in the
  last line is the value that \<^verbatim>\<open>let chartType = 'column'\<close> gives the variable before
  the chain.
\<close>

definition classifyChart :: "string \<Rightarrow> chartType" where
  "classifyChart chartXml =
     (if str_includes chartXml ''<c:barChart'' then
        (let grouping = (case groupingMatch chartXml of Some g \<Rightarrow> g | None \<Rightarrow> ''clustered'')
         in if barDirMatch chartXml = Some ''bar'' then
              (if grouping = ''stacked'' then StackedBar
               else if grouping = ''percentStacked'' then PercentStackedBar
               else Bar)
            else
              (if grouping = ''stacked'' then Column
               else if grouping = ''percentStacked'' then Column
               else Column))
      else if str_includes chartXml ''<c:lineChart'' then Line
      else if str_includes chartXml ''<c:pieChart'' then Pie
      else if str_includes chartXml ''<c:doughnutChart'' then Doughnut
      else if str_includes chartXml ''<c:areaChart'' then
        (let grouping = (case groupingMatch chartXml of Some g \<Rightarrow> g | None \<Rightarrow> ''standard'')
         in if grouping = ''stacked'' then StackedArea
            else if grouping = ''percentStacked'' then PercentStackedArea
            else Area)
      else if str_includes chartXml ''<c:scatterChart'' then Scatter
      else if str_includes chartXml ''<c:radarChart'' then Radar
      else if str_includes chartXml ''<c:bubbleChart'' then Bubble
      else if str_includes chartXml ''<c:ofPieChart'' then Pie
      else if str_includes chartXml ''<c:surfaceChart'' then Scatter
      else if str_includes chartXml ''<c:stockChart'' then Combo
      else Column)"

text \<open>
  The references \<^verbatim>\<open><c:f>...</c:f>\<close> that hold both \<^verbatim>\<open>!\<close> and \<^verbatim>\<open>$\<close>, and the
  range merged from them (empty when there is none).
\<close>

definition allRanges :: "string \<Rightarrow> string list" where
  "allRanges chartXml =
     filter (\<lambda>rng. str_includes rng ''!'' \<and> str_includes rng ''$'')
       (matchAllElementText ''<c:f>'' ''</c:f>'' 0 chartXml)"

definition chartDataRange :: "string \<Rightarrow> string" where
  "chartDataRange chartXml =
     (if allRanges chartXml \<noteq> [] then mergeChartDataRanges (allRanges chartXml) else [])"

text \<open>
  \<^verbatim>\<open>chartXml.match(/<c:title>[\s\S]*?<c:t>([^<]+)<\/c:t>/)\<close>: behind the first
  \<^verbatim>\<open><c:title>\<close>, the first \<^verbatim>\<open><c:t>\<close> element with text.
\<close>

definition chartTitle :: "string \<Rightarrow> string" where
  "chartTitle chartXml =
     (case afterFirst ''<c:title>'' chartXml of
        None \<Rightarrow> []
      | Some rest \<Rightarrow>
          (case matchElementText ''<c:t>'' ''</c:t>'' rest of Some t \<Rightarrow> t | None \<Rightarrow> []))"

text \<open>
  What \<^verbatim>\<open>parseChartsFromXlsx\<close> reads from the chart part of one anchor. The argument
  is the text of the chart file, \<open>None\<close> when the archive has no such file. The result
  is \<open>None\<close> when the anchor is passed over (\<^verbatim>\<open>continue\<close>: the chart is a pivot chart),
  and else the fields \<^verbatim>\<open>chartType\<close>, \<^verbatim>\<open>dataRange\<close> and \<^verbatim>\<open>title\<close> of the
  \<^verbatim>\<open>ImportedChart\<close> that is pushed. The other fields (ids, sheet, position, size) come
  from the drawing anchor and do not depend on the chart part.
\<close>

record chartPart =
  chartType :: chartType
  dataRange :: string
  title :: string

definition readChartPart :: "string option \<Rightarrow> chartPart option" where
  "readChartPart chartFile =
     (case chartFile of
        None \<Rightarrow> Some \<lparr> chartType = Column, dataRange = [], title = [] \<rparr>
      | Some chartXml \<Rightarrow>
          if str_includes chartXml ''<c:pivotSource'' \<or> str_includes chartXml ''<c15:pivotSource''
          then None
          else Some \<lparr> chartType = classifyChart chartXml,
                      dataRange = chartDataRange chartXml,
                      title = chartTitle chartXml \<rparr>)"

text \<open>The element tags that the chain of \<open>classifyChart\<close> looks for, one per chart family.\<close>

definition familyTags :: "string list" where
  "familyTags =
     [''<c:barChart'', ''<c:lineChart'', ''<c:pieChart'', ''<c:doughnutChart'',
      ''<c:areaChart'', ''<c:scatterChart'', ''<c:radarChart'', ''<c:bubbleChart'',
      ''<c:ofPieChart'', ''<c:surfaceChart'', ''<c:stockChart'']"

section \<open>Pivot tables\<close>

text \<open>The global \<^verbatim>\<open>colToNum\<close> (A = 0, B = 1, ...): the same loop, then \<^verbatim>\<open>num - 1\<close>.\<close>

definition colToNum :: "string \<Rightarrow> int" where
  "colToNum col =
     toDouble (foldl (\<lambda>num c. toDouble (toDouble (num * 26) + (of_char c - 64))) 0 col - 1)"

text \<open>A rectangle of cells, 0-based and inclusive, as the source writes it in several places.\<close>

record cellRange =
  startRow :: int
  startColumn :: int
  endRow :: int
  endColumn :: int

text \<open>
  \<^verbatim>\<open>([A-Z]+)(\d+)\<close> at the start of a string: letters, digits and the text behind them.
  Each run is the longest one, since what has to follow a shorter run is outside its
  class.
\<close>

definition cellAt :: "string \<Rightarrow> (string \<times> string \<times> string) option" where
  "cellAt s =
     (let letters = takeWhile isUpperAZ s;
          digits = takeWhile isDigit (dropWhile isUpperAZ s)
      in if letters = [] \<or> digits = [] then None
         else Some (letters, digits, dropWhile isDigit (dropWhile isUpperAZ s)))"

text \<open>\<^verbatim>\<open>([A-Z]+)(\d+):([A-Z]+)(\d+)\<close> at the start of a string: groups 1 to 4.\<close>

definition rangeAt :: "string \<Rightarrow> (string \<times> string \<times> string \<times> string) option" where
  "rangeAt s =
     (case cellAt s of
        None \<Rightarrow> None
      | Some (c1, r1, t) \<Rightarrow>
          (case t of
             [] \<Rightarrow> None
           | x # t' \<Rightarrow>
               if x = CHR '':'' then
                 (case cellAt t' of
                    Some (c2, r2, u) \<Rightarrow> Some (c1, r1, c2, r2)
                  | None \<Rightarrow> None)
               else None))"

text \<open>\<^verbatim>\<open>ref.match(/([A-Z]+)(\d+):([A-Z]+)(\d+)/)\<close>: the leftmost match.\<close>

fun matchRange :: "string \<Rightarrow> (string \<times> string \<times> string \<times> string) option" where
  "matchRange [] = None"
| "matchRange (c # s) =
     (case rangeAt (c # s) of Some m \<Rightarrow> Some m | None \<Rightarrow> matchRange s)"

text \<open>\<^verbatim>\<open>ref.match(/([A-Z]+)(\d+)/)\<close>: the leftmost match.\<close>

fun matchCellRef :: "string \<Rightarrow> (string \<times> string) option" where
  "matchCellRef [] = None"
| "matchCellRef (c # s) =
     (case cellAt (c # s) of Some (letters, digits, t) \<Rightarrow> Some (letters, digits)
      | None \<Rightarrow> matchCellRef s)"

text \<open>
  The variables \<^verbatim>\<open>anchorRow\<close>, \<^verbatim>\<open>anchorCol\<close> and \<^verbatim>\<open>occupiedRange\<close> of
  \<^verbatim>\<open>parsePivotTablesFromXlsx\<close>, and \<^verbatim>\<open>filterFields\<close>; the pivot table that is pushed has
  \<^verbatim>\<open>anchorCell: { row: anchorRow, col: anchorCol }\<close>.
\<close>

record pivotPlacement =
  anchorRow :: int
  anchorCol :: int
  occupiedRange :: "cellRange option"
  filterFields :: "int list"

text \<open>The location as the reference of \<^verbatim>\<open><location ref="..."/>\<close> gives it.\<close>

definition locationOfRef :: "string \<Rightarrow> int \<times> int \<times> cellRange option" where
  "locationOfRef refRange =
     (case matchRange refRange of
        Some (c1, r1, c2, r2) \<Rightarrow>
          (toDouble (parseInt r1 - 1), colToNum c1,
           Some \<lparr> startRow = toDouble (parseInt r1 - 1), startColumn = colToNum c1,
                  endRow = toDouble (parseInt r2 - 1), endColumn = colToNum c2 \<rparr>)
      | None \<Rightarrow>
          (case matchCellRef refRange of
             Some (c, r) \<Rightarrow> (toDouble (parseInt r - 1), colToNum c, None)
           | None \<Rightarrow> (0, 0, None)))"

text \<open>
  \<^verbatim>\<open>pivotTableXml.match(/<location[^>]*ref="([^"]*)"/)\<close> and the location it gives;
  without a match the variables keep 0, 0 and \<^verbatim>\<open>undefined\<close>.
\<close>

definition pivotLocation :: "string \<Rightarrow> int \<times> int \<times> cellRange option" where
  "pivotLocation pivotTableXml =
     (case matchAttr ''<location'' (''ref='' @ [dquote]) (\<lambda>c. c \<noteq> dquote) 0 pivotTableXml of
        Some refRange \<Rightarrow> locationOfRef refRange
      | None \<Rightarrow> (0, 0, None))"

text \<open>
  The shape \<^verbatim>\<open>lit[^>]*>([\s\S]*?)close\<close>: behind the leftmost \<open>lit\<close> whose tag is closed
  and whose body reaches a \<open>close\<close>, the body up to the first \<open>close\<close>.
\<close>

fun matchElementBody :: "string \<Rightarrow> string \<Rightarrow> string \<Rightarrow> string option" where
  "matchElementBody lit cls [] = None"
| "matchElementBody lit cls (c # s) =
     (if startsWith (c # s) lit then
        (case dropWhile (\<lambda>x. x \<noteq> gt) (drop (length lit) (c # s)) of
           [] \<Rightarrow> matchElementBody lit cls s
         | x # body \<Rightarrow>
             (case beforeFirst cls body of
                Some b \<Rightarrow> Some b
              | None \<Rightarrow> matchElementBody lit cls s))
      else matchElementBody lit cls s)"

text \<open>
  The page fields: \<^verbatim>\<open>/<pageFields[^>]*>([\s\S]*?)<\/pageFields>/\<close>, and in its body every
  \<^verbatim>\<open>/<pageField[^>]*fld="(\d+)"/g\<close>.
\<close>

definition pageFields :: "string \<Rightarrow> int list" where
  "pageFields pivotTableXml =
     (case matchElementBody ''<pageFields'' ''</pageFields>'' pivotTableXml of
        None \<Rightarrow> []
      | Some body \<Rightarrow>
          map parseInt (matchAllAttr ''<pageField'' (''fld='' @ [dquote]) isDigit 1 0 body))"

text \<open>
  The shift for the filter rows:
  \<^verbatim>\<open>if (filterRowCount > 0) { anchorRow = Math.max(0, anchorRow - filterRowCount);
  if (occupiedRange) occupiedRange.startRow = Math.max(0, occupiedRange.startRow - filterRowCount); }\<close>
  with \<^verbatim>\<open>filterRowCount = filterFields.length * 2\<close> (the length of an array is below
  \<open>2 ^ 32\<close>, so this product is exact); the differences are rounded.
\<close>

definition reserveFilterRows :: "int \<times> int \<times> cellRange option \<Rightarrow> int list \<Rightarrow> pivotPlacement" where
  "reserveFilterRows loc pageFlds =
     (case loc of (row0, col0, occupied) \<Rightarrow>
        (let filterRowCount = int (length pageFlds) * 2
         in if filterRowCount > 0 then
              \<lparr> anchorRow = max 0 (toDouble (row0 - filterRowCount)),
                anchorCol = col0,
                occupiedRange =
                  map_option
                    (\<lambda>occ. occ \<lparr> startRow := max 0 (toDouble (startRow occ - filterRowCount)) \<rparr>)
                    occupied,
                filterFields = pageFlds \<rparr>
            else
              \<lparr> anchorRow = row0, anchorCol = col0, occupiedRange = occupied,
                filterFields = pageFlds \<rparr>))"

text \<open>The placement of the pivot table that one pivot-table part gives.\<close>

definition pivotPlacementOf :: "string \<Rightarrow> pivotPlacement" where
  "pivotPlacementOf pivotTableXml =
     reserveFilterRows (pivotLocation pivotTableXml) (pageFields pivotTableXml)"

section \<open>White space\<close>

text \<open>
  The characters that \<^verbatim>\<open>\s\<close> matches and \<^verbatim>\<open>trim\<close> removes (white space and line
  terminators of ECMAScript), each as its UTF-8 bytes: U+0009 to U+000D, U+0020, U+00A0,
  U+1680, U+2000 to U+200A, U+2028, U+2029, U+202F, U+205F, U+3000 and U+FEFF.
\<close>

definition jsWhitespace :: "string list" where
  "jsWhitespace =
     [[CHR 0x09], [CHR 0x0A], [CHR 0x0B], [CHR 0x0C], [CHR 0x0D], [CHR 0x20],
      [CHR 0xC2, CHR 0xA0], [CHR 0xE1, CHR 0x9A, CHR 0x80],
      [CHR 0xE2, CHR 0x80, CHR 0x80], [CHR 0xE2, CHR 0x80, CHR 0x81],
      [CHR 0xE2, CHR 0x80, CHR 0x82], [CHR 0xE2, CHR 0x80, CHR 0x83],
      [CHR 0xE2, CHR 0x80, CHR 0x84], [CHR 0xE2, CHR 0x80, CHR 0x85],
      [CHR 0xE2, CHR 0x80, CHR 0x86], [CHR 0xE2, CHR 0x80, CHR 0x87],
      [CHR 0xE2, CHR 0x80, CHR 0x88], [CHR 0xE2, CHR 0x80, CHR 0x89],
      [CHR 0xE2, CHR 0x80, CHR 0x8A], [CHR 0xE2, CHR 0x80, CHR 0xA8],
      [CHR 0xE2, CHR 0x80, CHR 0xA9], [CHR 0xE2, CHR 0x80, CHR 0xAF],
      [CHR 0xE2, CHR 0x81, CHR 0x9F], [CHR 0xE3, CHR 0x80, CHR 0x80],
      [CHR 0xEF, CHR 0xBB, CHR 0xBF]]"

text \<open>The white-space character at the start of a string, if there is one.\<close>

definition leadingWhitespace :: "string \<Rightarrow> string option" where
  "leadingWhitespace s = find (\<lambda>w. take (length w) s = w) jsWhitespace"

text \<open>\<^verbatim>\<open>\s*\<close> at the start of a string: what is left behind the white space.\<close>

function skipWhitespace :: "string \<Rightarrow> string" where
  "skipWhitespace s =
     (case leadingWhitespace s of
        None \<Rightarrow> s
      | Some w \<Rightarrow> if w = [] \<or> length s < length w then s else skipWhitespace (drop (length w) s))"
  by pat_completeness auto
termination
proof (relation "measure length", goal_cases)
  case 1
  show ?case by simp
next
  case (2 s w)
  then have "0 < length w" and "length w \<le> length s" by simp_all
  then have "length s - length w < length s" by arith
  then show ?case by simp
qed

section \<open>The document mapper\<close>

subsection \<open>The source workbook\<close>

text \<open>\<^verbatim>\<open>ExcelJS.ValueType\<close>.\<close>

datatype valueType =
    ValueNull | ValueMerge | ValueNumber | ValueString | ValueDate | ValueHyperlink
  | ValueFormula | ValueSharedString | ValueRichText | ValueBoolean | ValueError

text \<open>
  A JavaScript value as far as the mapper tells values apart: \<^verbatim>\<open>null\<close>,
  \<^verbatim>\<open>undefined\<close>, a string, a finite number, \<^verbatim>\<open>NaN\<close>, an infinity, a boolean, or an
  object (\<open>'o\<close>: dates, error values, formula values).
\<close>

datatype 'o jsValue =
    JNull | JUndefined | JStr string | JNum real | JNaN | JInfinity bool | JBool bool | JObj 'o

text \<open>
  The parts of \<^verbatim>\<open>ExcelJS.Style\<close> that \<^verbatim>\<open>convertCellStyle\<close> reads. \<open>'c\<close> is a colour of
  the source. A key that is not set, or that is falsy, is \<open>None\<close> (\<open>False\<close> for a flag).
\<close>

record 'c excelBorder =
  borderStyle :: "string option"
  borderColor :: "'c option"

record 'c excelBorders =
  borderTop :: "'c excelBorder option"
  borderBottom :: "'c excelBorder option"
  borderLeft :: "'c excelBorder option"
  borderRight :: "'c excelBorder option"

record 'c excelFont =
  fontBold :: bool
  fontItalic :: bool
  fontUnderline :: bool
  fontStrike :: bool
  fontSize :: "real option"
  fontName :: "string option"
  fontColor :: "'c option"

record 'c excelFill =
  fillType :: string
  fgColor :: "'c option"

record excelAlignment =
  horizontal :: "string option"
  vertical :: "string option"
  wrapText :: bool

record 'c excelStyle =
  font :: "'c excelFont option"
  fill :: "'c excelFill option"
  alignment :: "excelAlignment option"
  border :: "'c excelBorders option"
  numFmt :: "string option"

text \<open>
  A cell of the source: \<^verbatim>\<open>cell.type\<close>, \<^verbatim>\<open>cell.formula\<close> (a string or
  \<^verbatim>\<open>undefined\<close>, as ExcelJS declares it), \<^verbatim>\<open>cell.style\<close>, and \<open>cellContent\<close> for
  \<^verbatim>\<open>cell.value\<close> and \<^verbatim>\<open>cell.result\<close>, which only the helpers below read.
\<close>

record ('c, 'v) excelCell =
  cellType :: valueType
  cellFormula :: "string option"
  cellStyle :: "'c excelStyle option"
  cellContent :: 'v

text \<open>A row of \<^verbatim>\<open>eachRow\<close> with the cells of \<^verbatim>\<open>eachCell\<close>, each with its column number.\<close>

record ('c, 'v) excelRow =
  rowNumber :: int
  rowCells :: "(int \<times> ('c, 'v) excelCell) list"

text \<open>
  A merge of \<^verbatim>\<open>worksheet.model.merges\<close> with the two cells that
  \<^verbatim>\<open>worksheet.getCell\<close> finds for its corners: row and column (1-based) of each, and
  the style of the first, the master cell.
\<close>

record 'c excelMerge =
  startCellRow :: int
  startCellCol :: int
  endCellRow :: int
  endCellCol :: int
  masterStyle :: "'c excelStyle option"

record ('c, 'v) excelWorksheet =
  worksheetName :: string
  worksheetRows :: "('c, 'v) excelRow list"
  worksheetMerges :: "'c excelMerge list"
  worksheetHidden :: bool

subsection \<open>The canonical cells\<close>

text \<open>A border edge \<^verbatim>\<open>{ s, cl: { rgb } }\<close> and the four edges \<^verbatim>\<open>{ t, b, l, r }\<close>.\<close>

record univerBorder =
  edgeStyle :: int
  edgeColor :: string

record borderData =
  edgeT :: "univerBorder option"
  edgeB :: "univerBorder option"
  edgeL :: "univerBorder option"
  edgeR :: "univerBorder option"

text \<open>
  The style object of \<^verbatim>\<open>convertCellStyle\<close>, with the keys \<^verbatim>\<open>bl\<close>, \<^verbatim>\<open>it\<close>, \<^verbatim>\<open>ul\<close>,
  \<^verbatim>\<open>st\<close>, \<^verbatim>\<open>fs\<close>, \<^verbatim>\<open>ff\<close>, \<^verbatim>\<open>cl\<close>, \<^verbatim>\<open>bg\<close>, \<^verbatim>\<open>ht\<close>, \<^verbatim>\<open>vt\<close>, \<^verbatim>\<open>tb\<close>, \<^verbatim>\<open>bd\<close>
  and \<^verbatim>\<open>n\<close> in this order; \<open>None\<close> is a key that is not set. The number format
  \<^verbatim>\<open>n\<close> is the pattern with what \<open>parseNumFormat\<close> adds to it.
\<close>

record univerStyle =
  styleBl :: "int option"
  styleIt :: "int option"
  styleUl :: "int option"
  styleSt :: "int option"
  styleFs :: "real option"
  styleFf :: "string option"
  styleCl :: "string option"
  styleBg :: "string option"
  styleHt :: "int option"
  styleVt :: "int option"
  styleTb :: "int option"
  styleBd :: "borderData option"
  styleN :: "(string \<times> numFormatInfo option) option"

definition emptyStyle :: univerStyle where
  "emptyStyle = \<lparr> styleBl = None, styleIt = None, styleUl = None, styleSt = None,
     styleFs = None, styleFf = None, styleCl = None, styleBg = None, styleHt = None,
     styleVt = None, styleTb = None, styleBd = None, styleN = None \<rparr>"

definition emptyBorderData :: borderData where
  "emptyBorderData = \<lparr> edgeT = None, edgeB = None, edgeL = None, edgeR = None \<rparr>"

text \<open>
  A cell of \<^verbatim>\<open>cellData\<close> with its keys \<^verbatim>\<open>v\<close>, \<^verbatim>\<open>t\<close>, \<^verbatim>\<open>f\<close>, \<^verbatim>\<open>p\<close>, \<^verbatim>\<open>link\<close> and
  \<^verbatim>\<open>s\<close>; \<open>None\<close> is a key that is not set. \<open>'p\<close> is a rich-text body and \<open>'l\<close> a link.
\<close>

record ('o, 'p, 'l) univerCell =
  cellV :: "'o jsValue option"
  cellT :: "int option"
  cellF :: "string option"
  cellP :: "'p option"
  cellLink :: "'l option"
  cellS :: "univerStyle option"

definition emptyCell :: "('o, 'p, 'l) univerCell" where
  "emptyCell = \<lparr> cellV = None, cellT = None, cellF = None, cellP = None, cellLink = None,
     cellS = None \<rparr>"

text \<open>\<^verbatim>\<open>cellData\<close>: row index to column index to cell, both sparse.\<close>

type_synonym ('o, 'p, 'l) cellData = "int \<rightharpoonup> (int \<rightharpoonup> ('o, 'p, 'l) univerCell)"

text \<open>The cell at a row and a column, if \<^verbatim>\<open>cellData[row][col]\<close> is there.\<close>

definition cellOf :: "('o, 'p, 'l) cellData \<Rightarrow> int \<Rightarrow> int \<Rightarrow> ('o, 'p, 'l) univerCell option" where
  "cellOf cellData r c = (case cellData r of None \<Rightarrow> None | Some cols \<Rightarrow> cols c)"

subsection \<open>Helpers that are parameters\<close>

text \<open>
  The mapper calls helpers that resolve a displayed value, a rich-text body, a link and
  a colour. What the mapper stores depends on their results only through the tests
  below, so they are parameters of the model: \<^verbatim>\<open>getCellValue\<close>,
  \<^verbatim>\<open>getOriginalCellValue\<close>, \<^verbatim>\<open>convertRichText\<close> of the rich text of a cell, the
  \<^verbatim>\<open>{ url, text }\<close> of a hyperlink cell, and \<^verbatim>\<open>parseExcelColor\<close>.
\<close>

record ('c, 'v, 'o, 'p, 'l) helpers =
  getCellValue :: "('c, 'v) excelCell \<Rightarrow> 'o jsValue"
  getOriginalCellValue :: "('c, 'v) excelCell \<Rightarrow> 'o jsValue"
  convertRichText :: "('c, 'v) excelCell \<Rightarrow> 'p"
  hyperlinkOf :: "('c, 'v) excelCell \<Rightarrow> 'l"
  parseExcelColor :: "'c \<Rightarrow> string option"

subsection \<open>Styles\<close>

definition convertAlignment :: "string \<Rightarrow> int" where
  "convertAlignment a =
     (if a = ''left'' then 1 else if a = ''center'' then 2 else if a = ''right'' then 3 else 1)"

definition convertVerticalAlignment :: "string \<Rightarrow> int" where
  "convertVerticalAlignment a =
     (if a = ''top'' then 1 else if a = ''middle'' then 2 else if a = ''bottom'' then 3 else 2)"

definition borderStyleMap :: "(string \<times> int) list" where
  "borderStyleMap =
     [(''thin'', 1), (''medium'', 2), (''thick'', 3), (''dotted'', 4), (''dashed'', 5),
      (''double'', 6), (''hair'', 7), (''mediumDashed'', 8), (''dashDot'', 9),
      (''mediumDashDot'', 10), (''dashDotDot'', 11), (''mediumDashDotDot'', 12),
      (''slantDashDot'', 13)]"

text \<open>\<^verbatim>\<open>convertSingleBorder\<close>: style 1 and black unless the source says more.\<close>

definition convertSingleBorder :: "('c \<Rightarrow> string option) \<Rightarrow> 'c excelBorder \<Rightarrow> univerBorder" where
  "convertSingleBorder parseColor b =
     \<lparr> edgeStyle =
         (case borderStyle b of
            None \<Rightarrow> 1
          | Some st \<Rightarrow> (case map_of borderStyleMap st of Some k \<Rightarrow> k | None \<Rightarrow> 1)),
       edgeColor =
         (case borderColor b of
            None \<Rightarrow> ''#000000''
          | Some color \<Rightarrow> (case parseColor color of Some rgb \<Rightarrow> rgb | None \<Rightarrow> ''#000000'')) \<rparr>"

text \<open>\<^verbatim>\<open>convertBorder\<close>: the edges that the source has; \<^verbatim>\<open>undefined\<close> without any.\<close>

definition convertBorder :: "('c \<Rightarrow> string option) \<Rightarrow> 'c excelBorders \<Rightarrow> borderData option" where
  "convertBorder parseColor b =
     (let result =
        \<lparr> edgeT = map_option (convertSingleBorder parseColor) (borderTop b),
          edgeB = map_option (convertSingleBorder parseColor) (borderBottom b),
          edgeL = map_option (convertSingleBorder parseColor) (borderLeft b),
          edgeR = map_option (convertSingleBorder parseColor) (borderRight b) \<rparr>
      in if edgeT result \<noteq> None \<or> edgeB result \<noteq> None \<or> edgeL result \<noteq> None \<or>
            edgeR result \<noteq> None
         then Some result else None)"

text \<open>\<^verbatim>\<open>convertNumFormat\<close>.\<close>

definition convertNumFormat :: "string \<Rightarrow> (string \<times> numFormatInfo option) option" where
  "convertNumFormat fmt =
     (if fmt = [] \<or> fmt = ''General'' then None else Some (fmt, parseNumFormat fmt))"

definition styleHasKeys :: "univerStyle \<Rightarrow> bool" where
  "styleHasKeys s \<longleftrightarrow>
     styleBl s \<noteq> None \<or> styleIt s \<noteq> None \<or> styleUl s \<noteq> None \<or> styleSt s \<noteq> None \<or>
     styleFs s \<noteq> None \<or> styleFf s \<noteq> None \<or> styleCl s \<noteq> None \<or> styleBg s \<noteq> None \<or>
     styleHt s \<noteq> None \<or> styleVt s \<noteq> None \<or> styleTb s \<noteq> None \<or> styleBd s \<noteq> None \<or>
     styleN s \<noteq> None"

text \<open>\<^verbatim>\<open>convertCellStyle\<close>, block by block: font, fill, alignment, border, number format.\<close>

definition convertFont :: "('c \<Rightarrow> string option) \<Rightarrow> 'c excelFont option \<Rightarrow> univerStyle \<Rightarrow> univerStyle" where
  "convertFont parseColor fnt s =
     (case fnt of
        None \<Rightarrow> s
      | Some f \<Rightarrow>
          s \<lparr> styleBl := (if fontBold f then Some 1 else None),
              styleIt := (if fontItalic f then Some 1 else None),
              styleUl := (if fontUnderline f then Some 1 else None),
              styleSt := (if fontStrike f then Some 1 else None),
              styleFs := (case fontSize f of Some z \<Rightarrow> if z = 0 then None else Some z | None \<Rightarrow> None),
              styleFf := (case fontName f of Some nm \<Rightarrow> if nm = [] then None else Some nm | None \<Rightarrow> None),
              styleCl := (case fontColor f of Some color \<Rightarrow> parseColor color | None \<Rightarrow> None) \<rparr>)"

definition convertFill :: "('c \<Rightarrow> string option) \<Rightarrow> 'c excelFill option \<Rightarrow> univerStyle \<Rightarrow> univerStyle" where
  "convertFill parseColor fl s =
     (case fl of
        None \<Rightarrow> s
      | Some f \<Rightarrow>
          if fillType f = ''pattern'' then
            s \<lparr> styleBg := (case fgColor f of Some color \<Rightarrow> parseColor color | None \<Rightarrow> None) \<rparr>
          else s)"

definition convertAlign :: "excelAlignment option \<Rightarrow> univerStyle \<Rightarrow> univerStyle" where
  "convertAlign al s =
     (case al of
        None \<Rightarrow> s
      | Some a \<Rightarrow>
          s \<lparr> styleHt := (case horizontal a of
                           Some h \<Rightarrow> if h = [] then None else Some (convertAlignment h)
                         | None \<Rightarrow> None),
              styleVt := (case vertical a of
                           Some v \<Rightarrow> if v = [] then None else Some (convertVerticalAlignment v)
                         | None \<Rightarrow> None),
              styleTb := (if wrapText a then Some 3 else None) \<rparr>)"

definition convertCellStyle :: "('c \<Rightarrow> string option) \<Rightarrow> 'c excelStyle \<Rightarrow> univerStyle option" where
  "convertCellStyle parseColor style =
     (let s1 = convertFont parseColor (font style) emptyStyle;
          s2 = convertFill parseColor (fill style) s1;
          s3 = convertAlign (alignment style) s2;
          s4 = s3 \<lparr> styleBd := (case border style of
                                  Some b \<Rightarrow> convertBorder parseColor b | None \<Rightarrow> None) \<rparr>;
          univerStyle = s4 \<lparr> styleN := (case numFmt style of
                                          Some fmt \<Rightarrow> convertNumFormat fmt | None \<Rightarrow> None) \<rparr>
      in if styleHasKeys univerStyle then Some univerStyle else None)"

subsection \<open>One cell\<close>

text \<open>
  \<^verbatim>\<open>formula.match(/_?xlfn\.?DISPIMG\s*\(\s*"([^"]+)"/i) ||
  formula.match(/DISPIMG\s*\(\s*"([^"]+)"/i)\<close> as a test: whatever the first pattern
  matches holds a match of the second, so the test is whether the second matches
  somewhere. Under \<^verbatim>\<open>i\<close> the letters of \<^verbatim>\<open>DISPIMG\<close> match in either case and
  nothing outside ASCII.
\<close>

definition dispImgAt :: "string \<Rightarrow> bool" where
  "dispImgAt s \<longleftrightarrow>
     toUpperCase (take 7 s) = ''DISPIMG'' \<and>
     (case skipWhitespace (drop 7 s) of
        [] \<Rightarrow> False
      | x # r \<Rightarrow>
          x = CHR ''('' \<and>
          (case skipWhitespace r of
             [] \<Rightarrow> False
           | y # t \<Rightarrow>
               y = dquote \<and> takeWhile (\<lambda>c. c \<noteq> dquote) t \<noteq> [] \<and>
               dropWhile (\<lambda>c. c \<noteq> dquote) t \<noteq> []))"

fun dispImgMatch :: "string \<Rightarrow> bool" where
  "dispImgMatch [] = False"
| "dispImgMatch (c # s) = (dispImgAt (c # s) \<or> dispImgMatch s)"

text \<open>\<^verbatim>\<open>rawValue !== null && rawValue !== undefined && rawValue !== ''\<close>.\<close>

definition hasValue :: "'o jsValue \<Rightarrow> bool" where
  "hasValue rawValue \<longleftrightarrow> rawValue \<noteq> JNull \<and> rawValue \<noteq> JUndefined \<and> rawValue \<noteq> JStr []"

text \<open>
  The last check on the value: a number that is \<^verbatim>\<open>NaN\<close> or infinite, or a string that
  holds \<^verbatim>\<open>NaN\<close>, gives way to \<^verbatim>\<open>getOriginalCellValue(cell)\<close>.
\<close>

definition checkedValue ::
    "('c, 'v, 'o, 'p, 'l) helpers \<Rightarrow> ('c, 'v) excelCell \<Rightarrow> 'o jsValue" where
  "checkedValue h cell =
     (let rawValue = getCellValue h cell
      in if hasValue rawValue then
           (case rawValue of
              JNaN \<Rightarrow> getOriginalCellValue h cell
            | JInfinity positive \<Rightarrow> getOriginalCellValue h cell
            | JStr str \<Rightarrow> if str_includes str ''NaN'' then getOriginalCellValue h cell else rawValue
            | _ \<Rightarrow> rawValue)
         else rawValue)"

text \<open>\<^verbatim>\<open>getCellType\<close>.\<close>

definition getCellType :: "('c, 'v) excelCell \<Rightarrow> 'o jsValue \<Rightarrow> int option" where
  "getCellType cell actualValue =
     (case (if hasValue actualValue then
              (case actualValue of
                 JBool b \<Rightarrow> Some 3
               | JNum x \<Rightarrow> Some 2
               | JNaN \<Rightarrow> Some 2
               | JInfinity positive \<Rightarrow> Some 2
               | JStr str \<Rightarrow> Some 1
               | _ \<Rightarrow> None)
            else None) of
        Some k \<Rightarrow> Some (k::int)
      | None \<Rightarrow>
          if cellType cell = ValueBoolean then Some 3
          else if cellType cell = ValueNumber then Some 2
          else if cellType cell = ValueDate then Some 1
          else if cellType cell = ValueString \<or> cellType cell = ValueRichText then Some 1
          else None)"

text \<open>\<^verbatim>\<open>Object.keys(cellValue).length > 0\<close>.\<close>

definition cellHasKeys :: "('o, 'p, 'l) univerCell \<Rightarrow> bool" where
  "cellHasKeys cv \<longleftrightarrow>
     cellV cv \<noteq> None \<or> cellT cv \<noteq> None \<or> cellF cv \<noteq> None \<or> cellP cv \<noteq> None \<or>
     cellLink cv \<noteq> None \<or> cellS cv \<noteq> None"

text \<open>
  What the callback of \<^verbatim>\<open>row.eachCell\<close> does to \<^verbatim>\<open>cellData\<close> for one cell: nothing
  (\<open>NoCell\<close>), only \<^verbatim>\<open>cellData[rowIndex] = {}\<close> for a row that is not there yet
  (\<open>RowOnly\<close>), or that and \<^verbatim>\<open>cellData[rowIndex][colIndex] = cellValue\<close> (\<open>Store\<close>).
\<close>

datatype 'a outcome = NoCell | RowOnly | Store 'a

text \<open>
  The formula block. \<^verbatim>\<open>cell.formula\<close> is a string, so of the four branches that choose
  \<^verbatim>\<open>formulaText\<close> the one for a string applies (the two before it test for an object).
\<close>

definition withFormula ::
    "('c, 'v) excelCell \<Rightarrow> 'o jsValue \<Rightarrow> ('o, 'p, 'l) univerCell \<Rightarrow> ('o, 'p, 'l) univerCell" where
  "withFormula cell rawValue cv =
     (if cellType cell = ValueFormula then
        (case cellFormula cell of
           None \<Rightarrow> cv
         | Some formula \<Rightarrow>
             if formula = [] then cv
             else
               (let formulaText = (if startsWith formula ''='' then formula else ''='' @ formula);
                    cv1 = cv \<lparr> cellF := Some formulaText \<rparr>
                in if rawValue \<noteq> JNull \<and> rawValue \<noteq> JUndefined
                   then cv1 \<lparr> cellV := Some rawValue \<rparr> else cv1))
      else cv)"

definition convertCell ::
    "('c, 'v, 'o, 'p, 'l) helpers \<Rightarrow> ('c, 'v) excelCell \<Rightarrow> ('o, 'p, 'l) univerCell outcome" where
  "convertCell h cell =
     (if cellType cell = ValueNull then
        (case cellStyle cell of
           None \<Rightarrow> NoCell
         | Some style \<Rightarrow>
             (case convertCellStyle (parseExcelColor h) style of
                None \<Rightarrow> NoCell
              | Some s \<Rightarrow> Store (emptyCell \<lparr> cellS := Some s \<rparr>)))
      else if cellType cell = ValueFormula \<and>
              (case cellFormula cell of Some formula \<Rightarrow> dispImgMatch formula | None \<Rightarrow> False)
      then NoCell
      else
        (let rawValue = checkedValue h cell;
             hasFormula = (cellType cell = ValueFormula \<and>
                           (case cellFormula cell of Some formula \<Rightarrow> formula \<noteq> [] | None \<Rightarrow> False))
         in if \<not> hasValue rawValue \<and> \<not> hasFormula then NoCell
            else
              (let cv1 = (if hasValue rawValue then emptyCell \<lparr> cellV := Some rawValue \<rparr>
                          else emptyCell);
                   cv2 = (case getCellType cell rawValue of
                            Some k \<Rightarrow> if hasValue rawValue then cv1 \<lparr> cellT := Some k \<rparr> else cv1
                          | None \<Rightarrow> cv1);
                   cv3 = withFormula cell rawValue cv2;
                   cv4 = (if cellType cell = ValueRichText
                          then cv3 \<lparr> cellP := Some (convertRichText h cell) \<rparr> else cv3);
                   cv5 = (if cellType cell = ValueHyperlink
                          then cv4 \<lparr> cellLink := Some (hyperlinkOf h cell) \<rparr> else cv4);
                   cellValue =
                     (case cellStyle cell of
                        None \<Rightarrow> cv5
                      | Some style \<Rightarrow>
                          (case convertCellStyle (parseExcelColor h) style of
                             None \<Rightarrow> cv5
                           | Some s \<Rightarrow> cv5 \<lparr> cellS := Some s \<rparr>))
               in if cellHasKeys cellValue then Store cellValue else RowOnly)))"

subsection \<open>One sheet\<close>

text \<open>\<^verbatim>\<open>if (!cellData[r]) cellData[r] = {}\<close>, and the row that is there then.\<close>

definition rowOf :: "('o, 'p, 'l) cellData \<Rightarrow> int \<Rightarrow> (int \<rightharpoonup> ('o, 'p, 'l) univerCell)" where
  "rowOf cellData r = (case cellData r of None \<Rightarrow> Map.empty | Some cols \<Rightarrow> cols)"

definition applyOutcome ::
    "('o, 'p, 'l) cellData \<Rightarrow> int \<Rightarrow> int \<Rightarrow> ('o, 'p, 'l) univerCell outcome \<Rightarrow> ('o, 'p, 'l) cellData" where
  "applyOutcome cellData rowIndex colIndex out =
     (case out of
        NoCell \<Rightarrow> cellData
      | RowOnly \<Rightarrow> cellData(rowIndex \<mapsto> rowOf cellData rowIndex)
      | Store cellValue \<Rightarrow> cellData(rowIndex \<mapsto> (rowOf cellData rowIndex)(colIndex \<mapsto> cellValue)))"

text \<open>
  The state of the loops over rows and cells: \<^verbatim>\<open>cellData\<close>, \<^verbatim>\<open>maxRow\<close> and
  \<^verbatim>\<open>maxCol\<close>.
\<close>

type_synonym ('o, 'p, 'l) sheetState = "('o, 'p, 'l) cellData \<times> int \<times> int"

definition eachCell ::
    "('c, 'v, 'o, 'p, 'l) helpers \<Rightarrow> int \<Rightarrow> ('o, 'p, 'l) sheetState \<Rightarrow>
     int \<times> ('c, 'v) excelCell \<Rightarrow> ('o, 'p, 'l) sheetState" where
  "eachCell h rowIndex st numbered =
     (case st of (cellData, maxRow, maxCol) \<Rightarrow>
        (case numbered of (colNumber, cell) \<Rightarrow>
           (let colIndex = colNumber - 1
            in (applyOutcome cellData rowIndex colIndex (convertCell h cell),
                maxRow, max maxCol colIndex))))"

definition eachRow ::
    "('c, 'v, 'o, 'p, 'l) helpers \<Rightarrow> ('o, 'p, 'l) sheetState \<Rightarrow> ('c, 'v) excelRow \<Rightarrow>
     ('o, 'p, 'l) sheetState" where
  "eachRow h st row =
     (case st of (cellData, maxRow, maxCol) \<Rightarrow>
        (let rowIndex = rowNumber row - 1
         in foldl (eachCell h rowIndex) (cellData, max maxRow rowIndex, maxCol) (rowCells row)))"

text \<open>
  One step of a border loop of the merges: the four guards
  \<^verbatim>\<open>if (!cellData[r]) ...; if (!cellData[r][c]) ...; if (!....s) ...; if (!....s.bd) ...\<close>
  and the assignment of one edge.
\<close>

definition setEdge ::
    "(borderData \<Rightarrow> borderData) \<Rightarrow> ('o, 'p, 'l) cellData \<Rightarrow> int \<Rightarrow> int \<Rightarrow> ('o, 'p, 'l) cellData" where
  "setEdge assign cellData r c =
     (let cols = rowOf cellData r;
          cell = (case cols c of None \<Rightarrow> emptyCell | Some cv \<Rightarrow> cv);
          s = (case cellS cell of None \<Rightarrow> emptyStyle | Some st \<Rightarrow> st);
          bd = (case styleBd s of None \<Rightarrow> emptyBorderData | Some b \<Rightarrow> b)
      in cellData(r \<mapsto> cols(c \<mapsto> cell \<lparr> cellS := Some (s \<lparr> styleBd := Some (assign bd) \<rparr>) \<rparr>)))"

text \<open>The region of a merge as \<^verbatim>\<open>mergeData\<close> gets it.\<close>

definition mergeRegion :: "'c excelMerge \<Rightarrow> cellRange" where
  "mergeRegion m =
     \<lparr> startRow = startCellRow m - 1, startColumn = startCellCol m - 1,
       endRow = endCellRow m - 1, endColumn = endCellCol m - 1 \<rparr>"

text \<open>
  A border loop along a row (\<^verbatim>\<open>for (let col = startColumn; col <= endColumn; col++)\<close>)
  and one along a column (\<^verbatim>\<open>for (let row = startRow; row <= endRow; row++)\<close>).
\<close>

definition alongRow ::
    "(borderData \<Rightarrow> borderData) \<Rightarrow> int \<Rightarrow> int list \<Rightarrow> ('o, 'p, 'l) cellData \<Rightarrow> ('o, 'p, 'l) cellData" where
  "alongRow assign r cols cellData = foldl (\<lambda>cd col. setEdge assign cd r col) cellData cols"

definition alongColumn ::
    "(borderData \<Rightarrow> borderData) \<Rightarrow> int \<Rightarrow> int list \<Rightarrow> ('o, 'p, 'l) cellData \<Rightarrow> ('o, 'p, 'l) cellData" where
  "alongColumn assign c rows cellData = foldl (\<lambda>cd row. setEdge assign cd row c) cellData rows"

text \<open>
  The four blocks \<^verbatim>\<open>if (border.top) { ... }\<close>, \<^verbatim>\<open>if (border.bottom) { ... }\<close>,
  \<^verbatim>\<open>if (border.left) { ... }\<close> and \<^verbatim>\<open>if (border.right) { ... }\<close> for a region \<open>rg\<close>.
\<close>

definition topBlock ::
    "('c \<Rightarrow> string option) \<Rightarrow> 'c excelBorders \<Rightarrow> cellRange \<Rightarrow> ('o, 'p, 'l) cellData \<Rightarrow> ('o, 'p, 'l) cellData" where
  "topBlock parseColor b rg cellData =
     (case borderTop b of
        None \<Rightarrow> cellData
      | Some e \<Rightarrow>
          alongRow (\<lambda>bd. bd \<lparr> edgeT := Some (convertSingleBorder parseColor e) \<rparr>)
            (startRow rg) [startColumn rg .. endColumn rg] cellData)"

definition bottomBlock ::
    "('c \<Rightarrow> string option) \<Rightarrow> 'c excelBorders \<Rightarrow> cellRange \<Rightarrow> ('o, 'p, 'l) cellData \<Rightarrow> ('o, 'p, 'l) cellData" where
  "bottomBlock parseColor b rg cellData =
     (case borderBottom b of
        None \<Rightarrow> cellData
      | Some e \<Rightarrow>
          alongRow (\<lambda>bd. bd \<lparr> edgeB := Some (convertSingleBorder parseColor e) \<rparr>)
            (endRow rg) [startColumn rg .. endColumn rg] cellData)"

definition leftBlock ::
    "('c \<Rightarrow> string option) \<Rightarrow> 'c excelBorders \<Rightarrow> cellRange \<Rightarrow> ('o, 'p, 'l) cellData \<Rightarrow> ('o, 'p, 'l) cellData" where
  "leftBlock parseColor b rg cellData =
     (case borderLeft b of
        None \<Rightarrow> cellData
      | Some e \<Rightarrow>
          alongColumn (\<lambda>bd. bd \<lparr> edgeL := Some (convertSingleBorder parseColor e) \<rparr>)
            (startColumn rg) [startRow rg .. endRow rg] cellData)"

definition rightBlock ::
    "('c \<Rightarrow> string option) \<Rightarrow> 'c excelBorders \<Rightarrow> cellRange \<Rightarrow> ('o, 'p, 'l) cellData \<Rightarrow> ('o, 'p, 'l) cellData" where
  "rightBlock parseColor b rg cellData =
     (case borderRight b of
        None \<Rightarrow> cellData
      | Some e \<Rightarrow>
          alongColumn (\<lambda>bd. bd \<lparr> edgeR := Some (convertSingleBorder parseColor e) \<rparr>)
            (endColumn rg) [startRow rg .. endRow rg] cellData)"

text \<open>
  The borders of one merge: when the master cell has a style with a border, the four
  blocks in the order top, bottom, left, right.
\<close>

definition mergeBorders ::
    "('c \<Rightarrow> string option) \<Rightarrow> ('o, 'p, 'l) cellData \<Rightarrow> 'c excelMerge \<Rightarrow> ('o, 'p, 'l) cellData" where
  "mergeBorders parseColor cellData m =
     (case masterStyle m of
        None \<Rightarrow> cellData
      | Some style \<Rightarrow>
          (case border style of
             None \<Rightarrow> cellData
           | Some b \<Rightarrow>
               rightBlock parseColor b (mergeRegion m)
                 (leftBlock parseColor b (mergeRegion m)
                   (bottomBlock parseColor b (mergeRegion m)
                     (topBlock parseColor b (mergeRegion m) cellData)))))"

text \<open>The sheet that is stored in \<^verbatim>\<open>univerWorkbook.sheets\<close>, as far as it is modelled.\<close>

record ('o, 'p, 'l) univerSheet =
  univerSheetId :: string
  univerSheetName :: string
  rowCount :: int
  columnCount :: int
  sheetHidden :: int
  sheetCellData :: "('o, 'p, 'l) cellData"
  mergeData :: "cellRange list option"

definition DEFAULT_ROW_COUNT :: int where "DEFAULT_ROW_COUNT = 1000"
definition DEFAULT_COLUMN_COUNT :: int where "DEFAULT_COLUMN_COUNT = 26"

text \<open>\<^verbatim>\<open>escapeSheetName\<close>.\<close>

definition escapeSheetName :: "string \<Rightarrow> string" where
  "escapeSheetName nm = (if nm = [] then ''Sheet1'' else nm)"

text \<open>
  The cells of a sheet: the loop over the rows, then the loop over the merges. Row and
  column sizes, conditional formats, filters, data validations, freeze panes, images
  and charts are collected by the same callback into other objects; they do not write
  to \<^verbatim>\<open>cellData\<close> and are not modelled.
\<close>

definition sheetCells ::
    "('c, 'v, 'o, 'p, 'l) helpers \<Rightarrow> ('c, 'v) excelWorksheet \<Rightarrow> ('o, 'p, 'l) sheetState" where
  "sheetCells h worksheet =
     (case foldl (eachRow h) (Map.empty, 0, 0) (worksheetRows worksheet) of
        (cellData, maxRow, maxCol) \<Rightarrow>
          (foldl (mergeBorders (parseExcelColor h)) cellData (worksheetMerges worksheet),
           maxRow, maxCol))"

definition convertSheet ::
    "('c, 'v, 'o, 'p, 'l) helpers \<Rightarrow> string \<Rightarrow> nat \<Rightarrow> ('c, 'v) excelWorksheet \<Rightarrow>
     ('o, 'p, 'l) univerSheet" where
  "convertSheet h sheetKey sheetIndex worksheet =
     (case sheetCells h worksheet of
        (cellData, maxRow, maxCol) \<Rightarrow>
          \<lparr> univerSheetId = sheetKey,
            univerSheetName = escapeSheetName
              (if worksheetName worksheet = [] then ''Sheet'' @ showInt (int sheetIndex + 1)
               else worksheetName worksheet),
            rowCount = max DEFAULT_ROW_COUNT (maxRow + 1),
            columnCount = max DEFAULT_COLUMN_COUNT (maxCol + 1),
            sheetHidden = (if worksheetHidden worksheet then 1 else 0),
            sheetCellData = cellData,
            mergeData = (if worksheetMerges worksheet = [] then None
                         else Some (map mergeRegion (worksheetMerges worksheet))) \<rparr>)"

subsection \<open>The workbook\<close>

text \<open>
  \<^verbatim>\<open>univerWorkbook\<close> with \<^verbatim>\<open>sheetOrder\<close> and \<^verbatim>\<open>sheets\<close>. The key of a sheet is
  \<^verbatim>\<open>`sheet-${nanoid()}`\<close>; \<open>sheetKeyOf i\<close> stands for the key that the callback draws
  for the worksheet at index \<open>i\<close>.
\<close>

record ('o, 'p, 'l) workbookData =
  sheetOrder :: "string list"
  sheets :: "string \<rightharpoonup> ('o, 'p, 'l) univerSheet"

text \<open>
  The callback of \<^verbatim>\<open>workbook.worksheets.forEach\<close>: an entry that is \<^verbatim>\<open>undefined\<close>
  (\<open>None\<close>) is passed over; for any other the key is pushed to \<^verbatim>\<open>sheetOrder\<close> and the
  sheet is stored under it.
\<close>

definition forEachWorksheet ::
    "('c, 'v, 'o, 'p, 'l) helpers \<Rightarrow> (nat \<Rightarrow> string) \<Rightarrow> ('o, 'p, 'l) workbookData \<Rightarrow>
     nat \<times> ('c, 'v) excelWorksheet option \<Rightarrow> ('o, 'p, 'l) workbookData" where
  "forEachWorksheet h sheetKeyOf wb indexed =
     (case indexed of (sheetIndex, entry) \<Rightarrow>
        (case entry of
           None \<Rightarrow> wb
         | Some worksheet \<Rightarrow>
             (let sheetKey = sheetKeyOf sheetIndex
              in wb \<lparr> sheetOrder := sheetOrder wb @ [sheetKey],
                      sheets := (sheets wb)(sheetKey \<mapsto> convertSheet h sheetKey sheetIndex worksheet) \<rparr>)))"

definition importWorkbook ::
    "('c, 'v, 'o, 'p, 'l) helpers \<Rightarrow> (nat \<Rightarrow> string) \<Rightarrow> ('c, 'v) excelWorksheet option list \<Rightarrow>
     ('o, 'p, 'l) workbookData" where
  "importWorkbook h sheetKeyOf worksheets =
     foldl (forEachWorksheet h sheetKeyOf) \<lparr> sheetOrder = [], sheets = Map.empty \<rparr>
       (enumerate 0 worksheets)"

subsection \<open>Notions of the claims about cells and merges\<close>

text \<open>
  A cell carries content: a value (not empty), a formula, or a style that holds at
  least one key.
\<close>

definition carriesContent :: "('o, 'p, 'l) univerCell \<Rightarrow> bool" where
  "carriesContent cv \<longleftrightarrow>
     (case cellV cv of Some v \<Rightarrow> hasValue v | None \<Rightarrow> False) \<or> cellF cv \<noteq> None \<or>
     (case cellS cv of Some s \<Rightarrow> styleHasKeys s | None \<Rightarrow> False)"

text \<open>
  The border edges of the cell at a row and a column; a cell, a style or a border
  object that is not there has no edge.
\<close>

definition bordersAt :: "('o, 'p, 'l) cellData \<Rightarrow> int \<Rightarrow> int \<Rightarrow> borderData" where
  "bordersAt cellData r c =
     (case cellOf cellData r c of
        None \<Rightarrow> emptyBorderData
      | Some cv \<Rightarrow>
          (case cellS cv of
             None \<Rightarrow> emptyBorderData
           | Some s \<Rightarrow> (case styleBd s of None \<Rightarrow> emptyBorderData | Some bd \<Rightarrow> bd)))"





text \<open>Every cell that is present carries content.\<close>

definition sparseCells :: "('o, 'p, 'l) cellData \<Rightarrow> bool" where
  "sparseCells cellData \<longleftrightarrow> (\<forall>r c cv. cellOf cellData r c = Some cv \<longrightarrow> carriesContent cv)"


text \<open>
  The worksheets that the loop over \<^verbatim>\<open>workbook.worksheets\<close> visits: each entry of
  the array that is a worksheet, with its index.
\<close>

definition visited :: "'a option list \<Rightarrow> (nat \<times> 'a) list" where
  "visited worksheets =
     List.map_filter (\<lambda>(i, entry). map_option (\<lambda>w. (i, w)) entry) (enumerate 0 worksheets)"

subsection \<open>A small workbook\<close>

text \<open>
  Helpers for a source whose cells hold their displayed text: the value of a cell is
  that text, there are no colours, and rich text and links carry nothing.
\<close>

definition exampleHelpers :: "(unit, string, unit, unit, unit) helpers" where
  "exampleHelpers =
     \<lparr> getCellValue = (\<lambda>cell. JStr (cellContent cell)),
       getOriginalCellValue = (\<lambda>cell. JStr (cellContent cell)),
       convertRichText = (\<lambda>cell. ()),
       hyperlinkOf = (\<lambda>cell. ()),
       parseExcelColor = (\<lambda>color. None) \<rparr>"

definition exampleKey :: "nat \<Rightarrow> string" where
  "exampleKey i = ''sheet-'' @ showInt (int i)"

definition thinEdge :: "unit excelBorder" where
  "thinEdge = \<lparr> borderStyle = Some ''thin'', borderColor = None \<rparr>"

definition thinBorders :: "unit excelBorders" where
  "thinBorders = \<lparr> borderTop = Some thinEdge, borderBottom = Some thinEdge,
     borderLeft = Some thinEdge, borderRight = Some thinEdge \<rparr>"

definition borderedStyle :: "unit excelStyle" where
  "borderedStyle = \<lparr> font = None, fill = None, alignment = None, border = Some thinBorders,
     numFmt = None \<rparr>"

text \<open>The merge \<^verbatim>\<open>A2:B3\<close> with a thin border around its master cell.\<close>

definition exampleMerge :: "unit excelMerge" where
  "exampleMerge = \<lparr> startCellRow = 2, startCellCol = 1, endCellRow = 3, endCellCol = 2,
     masterStyle = Some borderedStyle \<rparr>"

text \<open>
  A sheet with one row (a text, an empty cell without style, and a formula without a
  cached result) and the merge, and a sheet without any cell.
\<close>

definition exampleWorksheet :: "(unit, string) excelWorksheet" where
  "exampleWorksheet =
     \<lparr> worksheetName = ''Data'',
       worksheetRows =
         [\<lparr> rowNumber = 1,
            rowCells =
              [(1, \<lparr> cellType = ValueString, cellFormula = None, cellStyle = None, cellContent = ''x'' \<rparr>),
               (2, \<lparr> cellType = ValueNull, cellFormula = None, cellStyle = None, cellContent = [] \<rparr>),
               (3, \<lparr> cellType = ValueFormula, cellFormula = Some ''SUM(A1:A3)'', cellStyle = None,
                      cellContent = [] \<rparr>)] \<rparr>],
       worksheetMerges = [exampleMerge],
       worksheetHidden = False \<rparr>"

definition emptyWorksheet :: "(unit, string) excelWorksheet" where
  "emptyWorksheet =
     \<lparr> worksheetName = ''Empty'', worksheetRows = [], worksheetMerges = [], worksheetHidden = False \<rparr>"

section \<open>Dates of the JavaScript runtime\<close>

text \<open>
  The \<^verbatim>\<open>Date\<close> operations that the date engine calls, after the definitions of
  ECMAScript (section "Date Objects"). A time value is a number of milliseconds since
  1970-01-01 UTC, or \<^verbatim>\<open>NaN\<close>: a date is \<open>InvalidDate\<close> or \<open>Date t\<close>.
\<close>

datatype jsDate = InvalidDate | Date int

text \<open>
  A number where the date engine may meet \<^verbatim>\<open>NaN\<close> or an infinity. Finite numbers are
  real numbers, and the arithmetic on them is exact, as it is in the source while the
  numbers are whole and below \<open>2 ^ 53\<close>: the time values of dates, and the serial
  numbers of days. The rounding of other sums, products and quotients (a serial number
  with a time of day) is not modelled.
\<close>

datatype jsNumber = NumNaN | NumInfinity bool | Num real

definition msPerDay :: int where "msPerDay = 86400000"


definition TimeWithinDay :: "int \<Rightarrow> int" where "TimeWithinDay t = t mod msPerDay"

definition DayFromYear :: "int \<Rightarrow> int" where
  "DayFromYear y =
     365 * (y - 1970) + (y - 1969) div 4 - (y - 1901) div 100 + (y - 1601) div 400"

definition InLeapYear :: "int \<Rightarrow> bool" where
  "InLeapYear y \<longleftrightarrow> y mod 4 = 0 \<and> (y mod 100 \<noteq> 0 \<or> y mod 400 = 0)"




text \<open>The number of days of a year before its month \<open>m\<close> (0 is January).\<close>

definition daysBeforeMonth :: "bool \<Rightarrow> int \<Rightarrow> int" where
  "daysBeforeMonth leap m =
     (let l = (if leap then 1 else 0)
      in if m \<le> 0 then 0 else if m = 1 then 31 else if m = 2 then 59 + l
         else if m = 3 then 90 + l else if m = 4 then 120 + l else if m = 5 then 151 + l
         else if m = 6 then 181 + l else if m = 7 then 212 + l else if m = 8 then 243 + l
         else if m = 9 then 273 + l else if m = 10 then 304 + l else 334 + l)"






text \<open>\<^verbatim>\<open>MakeDay\<close> for integers: the day number of a year, a month and a day of the month.\<close>

definition MakeDay :: "int \<Rightarrow> int \<Rightarrow> int \<Rightarrow> int" where
  "MakeDay year month date =
     (let ym = year + month div 12; mn = month mod 12
      in DayFromYear ym + daysBeforeMonth (InLeapYear ym) mn + date - 1)"

definition MakeDate :: "int \<Rightarrow> int \<Rightarrow> int" where
  "MakeDate day time = day * msPerDay + time"

text \<open>\<^verbatim>\<open>TimeClip\<close>: a time value beyond 8.64e15 milliseconds is \<^verbatim>\<open>NaN\<close>.\<close>

definition TimeClip :: "int \<Rightarrow> jsDate" where
  "TimeClip t = (if \<bar>t\<bar> > 8640000000000000 then InvalidDate else Date t)"




text \<open>The getters of a date; \<open>None\<close> is \<^verbatim>\<open>NaN\<close>.\<close>

definition getTime :: "jsDate \<Rightarrow> int option" where
  "getTime date = (case date of InvalidDate \<Rightarrow> None | Date t \<Rightarrow> Some t)"










text \<open>
  A year from 0 to 99 stands for 1900 to 1999 in \<^verbatim>\<open>Date.UTC\<close> and in
  \<^verbatim>\<open>new Date(year, month, day)\<close>.
\<close>

definition fullYear :: "int \<Rightarrow> int" where
  "fullYear y = (if 0 \<le> y \<and> y \<le> 99 then 1900 + y else y)"

text \<open>\<^verbatim>\<open>Date.UTC(year, month, day)\<close> on integers; the result is a time value or \<^verbatim>\<open>NaN\<close>.\<close>

definition DateUTC :: "int \<Rightarrow> int \<Rightarrow> int \<Rightarrow> int option" where
  "DateUTC year month day = getTime (TimeClip (MakeDate (MakeDay (fullYear year) month day) 0))"


text \<open>
  \<^verbatim>\<open>new Date(value)\<close> for a number: \<^verbatim>\<open>TimeClip\<close>, which also drops the fraction of a
  finite value (towards zero).
\<close>

definition truncate :: "real \<Rightarrow> int" where
  "truncate x = (if x < 0 then \<lceil>x\<rceil> else \<lfloor>x\<rfloor>)"

definition newDate :: "jsNumber \<Rightarrow> jsDate" where
  "newDate v =
     (case v of
        NumNaN \<Rightarrow> InvalidDate
      | NumInfinity positive \<Rightarrow> InvalidDate
      | Num x \<Rightarrow> if \<bar>x\<bar> > 8640000000000000 then InvalidDate else Date (truncate x))"

section \<open>The date engine\<close>

text \<open>
  \<^verbatim>\<open>new Date(Date.UTC(1899, 11, 30))\<close> and its \<^verbatim>\<open>getTime()\<close>. The date is valid
  (\<open>Date (-2209161600000)\<close>), so the \<open>None\<close> cases below are never taken.
\<close>

definition excelEpoch :: jsDate where
  "excelEpoch = (case DateUTC 1899 11 30 of None \<Rightarrow> InvalidDate | Some t \<Rightarrow> newDate (Num (real_of_int t)))"

definition excelEpochTime :: int where
  "excelEpochTime = (case getTime excelEpoch of Some t \<Rightarrow> t | None \<Rightarrow> 0)"



section \<open>Dates as text\<close>























section \<open>Properties of the numbers\<close>

declare bitLength.simps [simp del]

lemma toDouble_small: "\<bar>n\<bar> < 2 ^ 53 \<Longrightarrow> toDouble n = n"
  by (simp add: toDouble_def)

lemma toDouble_pow53: "toDouble 9007199254740992 = 9007199254740992"
  by code_simp

lemma toDouble_neg_pow53: "toDouble (- 9007199254740992) = - 9007199254740992"
  by code_simp

text \<open>A whole number up to \<open>2 ^ 53\<close> in magnitude is a double.\<close>

lemma toDouble_exact:
  assumes "\<bar>n\<bar> \<le> 2 ^ 53"
  shows "toDouble n = n"
proof (cases "\<bar>n\<bar> < 2 ^ 53")
  case True
  then show ?thesis by (rule toDouble_small)
next
  case False
  with assms have "\<bar>n\<bar> = 9007199254740992" by simp
  then have "n = 9007199254740992 \<or> n = - 9007199254740992" by (simp add: abs_if split: if_splits)
  then show ?thesis using toDouble_pow53 toDouble_neg_pow53 by auto
qed

lemma bitLength_bound: "0 < n \<Longrightarrow> 2 ^ (bitLength n - 1) \<le> n"
proof (induction n rule: bitLength.induct)
  case (1 n)
  show ?case
  proof (cases "n div 2 \<le> 0")
    case True
    with "1.prems" have "n = 1" by simp
    then show ?thesis by (simp add: bitLength.simps [of 1] bitLength.simps [of 0])
  next
    case False
    then have pos: "0 < n div 2" by simp
    have step: "bitLength n = Suc (bitLength (n div 2))"
      using "1.prems" by (subst bitLength.simps) simp
    have ge: "1 \<le> bitLength (n div 2)"
      using pos by (subst bitLength.simps) simp
    have "2 ^ (bitLength (n div 2) - 1) \<le> n div 2"
      using "1.IH" "1.prems" pos by simp
    then have "2 * 2 ^ (bitLength (n div 2) - 1) \<le> n"
      by simp
    moreover have "(2::int) * 2 ^ (bitLength (n div 2) - 1) = 2 ^ bitLength (n div 2)"
      using ge by (cases "bitLength (n div 2)") simp_all
    ultimately show ?thesis by (simp add: step)
  qed
qed

text \<open>Rounding keeps the sign, and a number from 1 on stays there.\<close>

lemma toDouble_nonneg: "0 \<le> n \<Longrightarrow> 0 \<le> toDouble n"
  by (simp add: toDouble_def Let_def pos_imp_zdiv_nonneg_iff)

lemma toDouble_nonpos:
  assumes "n \<le> 0"
  shows "toDouble n \<le> 0"
proof (cases "\<bar>n\<bar> < 2 ^ 53")
  case True
  then show ?thesis using assms by (simp add: toDouble_small)
next
  case False
  define e where "e = bitLength \<bar>n\<bar> - 53"
  define q where "q = \<bar>n\<bar> div 2 ^ e"
  define m where "m = (if 2 * (\<bar>n\<bar> mod 2 ^ e) > 2 ^ e \<or> (2 * (\<bar>n\<bar> mod 2 ^ e) = 2 ^ e \<and> odd q)
     then q + 1 else q)"
  have "0 \<le> q" by (simp add: q_def pos_imp_zdiv_nonneg_iff)
  then have "0 \<le> m * 2 ^ e" by (simp add: m_def)
  moreover have "sgn n \<le> 0" using assms by (simp add: sgn_if)
  ultimately have "sgn n * (m * 2 ^ e) \<le> 0" by (simp add: mult_nonpos_nonneg)
  moreover have "toDouble n = sgn n * (m * 2 ^ e)"
    using False by (simp add: toDouble_def Let_def e_def q_def m_def)
  ultimately show ?thesis by simp
qed

lemma toDouble_ge1:
  assumes "1 \<le> n"
  shows "1 \<le> toDouble n"
proof (cases "\<bar>n\<bar> < 2 ^ 53")
  case True
  then show ?thesis using assms by (simp add: toDouble_small)
next
  case False
  define e where "e = bitLength n - 53"
  define q where "q = n div 2 ^ e"
  define m where "m = (if 2 * (n mod 2 ^ e) > 2 ^ e \<or> (2 * (n mod 2 ^ e) = 2 ^ e \<and> odd q)
     then q + 1 else q)"
  have abs: "\<bar>n\<bar> = n" using assms by simp
  have "(2::int) ^ e \<le> 2 ^ (bitLength n - 1)"
    by (rule power_increasing) (simp_all add: e_def)
  also have "\<dots> \<le> n" using assms by (intro bitLength_bound) simp
  finally have "2 ^ e \<le> n" .
  then have "0 < q"
    unfolding q_def by (simp add: pos_imp_zdiv_pos_iff)
  then have "1 \<le> q" by simp
  then have "1 \<le> m" by (simp add: m_def)
  moreover have "(1::int) \<le> 2 ^ e" by simp
  ultimately have "1 * 1 \<le> m * 2 ^ e" by (intro mult_mono) simp_all
  moreover have "toDouble n = m * 2 ^ e"
    using False assms by (simp add: toDouble_def Let_def e_def q_def m_def abs)
  ultimately show ?thesis by simp
qed

text \<open>
  The loop of the column letters, \<^verbatim>\<open>num = num * 26 + (code - 64)\<close>, on capital
  letters: the number grows, and as long as it stays within \<open>2 ^ 53\<close> no step rounds.
\<close>

lemma foldl_colToNum_ge:
  "\<forall>c\<in>set col. isUpperAZ c \<Longrightarrow> 0 \<le> acc \<Longrightarrow>
     acc \<le> foldl (\<lambda>num c. num * 26 + (of_char c - 64)) (acc::int) col"
proof (induction col arbitrary: acc)
  case Nil
  then show ?case by simp
next
  case (Cons a col)
  have "acc \<le> acc * 26 + (of_char a - 64)"
    using Cons.prems by (simp add: isUpperAZ_def)
  moreover have "acc * 26 + (of_char a - 64) \<le>
      foldl (\<lambda>num c. num * 26 + (of_char c - 64)) (acc * 26 + (of_char a - 64)) col"
    using Cons.prems by (intro Cons.IH) (auto simp: isUpperAZ_def)
  ultimately show ?case by simp
qed

lemma foldl_letters_exact:
  assumes "\<forall>c\<in>set col. isUpperAZ c" and "0 \<le> acc"
    and "foldl (\<lambda>num c. num * 26 + (of_char c - 64)) (acc::int) col \<le> 2 ^ 53"
  shows "foldl (\<lambda>num c. toDouble (toDouble (num * 26) + (of_char c - 64))) acc col =
         foldl (\<lambda>num c. num * 26 + (of_char c - 64)) acc col"
  using assms
proof (induction col arbitrary: acc)
  case Nil
  then show ?case by simp
next
  case (Cons a col)
  define acc' where "acc' = acc * 26 + (of_char a - 64 :: int)"
  have d: "(1::int) \<le> of_char a - 64" using Cons.prems(1) by (simp add: isUpperAZ_def)
  have uppers: "\<forall>c\<in>set col. isUpperAZ c" using Cons.prems(1) by simp
  have nonneg: "0 \<le> acc'" using d Cons.prems(2) by (simp add: acc'_def)
  have whole: "foldl (\<lambda>num c. num * 26 + (of_char c - 64)) acc' col \<le> 2 ^ 53"
    using Cons.prems(3) by (simp add: acc'_def)
  have "acc' \<le> foldl (\<lambda>num c. num * 26 + (of_char c - 64)) acc' col"
    using uppers nonneg by (rule foldl_colToNum_ge)
  with whole have small: "acc' \<le> 2 ^ 53" by simp
  have "0 \<le> acc * 26" "acc * 26 \<le> 2 ^ 53"
    using Cons.prems(2) d small by (simp_all add: acc'_def)
  then have "toDouble (acc * 26) = acc * 26" by (intro toDouble_exact) simp
  moreover have "toDouble acc' = acc'" using nonneg small by (intro toDouble_exact) simp
  ultimately have step: "toDouble (toDouble (acc * 26) + (of_char a - 64)) = acc'"
    by (simp add: acc'_def)
  show ?case
    using Cons.IH [OF uppers nonneg whole] by (simp add: step acc'_def [symmetric])
qed

lemma foldl_letters_ge1:
  "\<forall>c\<in>set col. isUpperAZ c \<Longrightarrow> 1 \<le> acc \<Longrightarrow>
     1 \<le> foldl (\<lambda>num c. toDouble (toDouble (num * 26) + (of_char c - 64))) (acc::int) col"
proof (induction col arbitrary: acc)
  case Nil
  then show ?case by simp
next
  case (Cons a col)
  have d: "(1::int) \<le> of_char a - 64" using Cons.prems(1) by (simp add: isUpperAZ_def)
  have "1 \<le> acc * 26" using Cons.prems(2) by simp
  then have "1 \<le> toDouble (acc * 26)" by (rule toDouble_ge1)
  with d have "1 \<le> toDouble (acc * 26) + (of_char a - 64)" by simp
  then have "1 \<le> toDouble (toDouble (acc * 26) + (of_char a - 64))" by (rule toDouble_ge1)
  then show ?case using Cons.IH Cons.prems(1) by simp
qed

section \<open>Properties of the column letters\<close>

subsection \<open>The two conversions are inverse on indices\<close>

declare columnIndexToLetter_loop.simps [simp del]

lemma columnIndexToLetter_loop_append:
  "columnIndexToLetter_loop temp letter = columnIndexToLetter_loop temp [] @ letter"
proof (induction "nat (temp + 1)" arbitrary: temp letter rule: less_induct)
  case less
  show ?case
  proof (cases "temp \<ge> 0")
    case True
    let ?c = "char_of (temp mod 26 + 65) :: char"
    have smaller: "nat (temp div 26 - 1 + 1) < nat (temp + 1)"
      using True by simp
    have "columnIndexToLetter_loop temp letter =
        columnIndexToLetter_loop (temp div 26 - 1) (?c # letter)"
      using True by (subst columnIndexToLetter_loop.simps) simp
    also have "\<dots> = columnIndexToLetter_loop (temp div 26 - 1) [] @ (?c # letter)"
      using less [OF smaller] .
    finally have a: "columnIndexToLetter_loop temp letter =
        columnIndexToLetter_loop (temp div 26 - 1) [] @ (?c # letter)" .
    have "columnIndexToLetter_loop temp [] = columnIndexToLetter_loop (temp div 26 - 1) [?c]"
      using True by (subst columnIndexToLetter_loop.simps) simp
    also have "\<dots> = columnIndexToLetter_loop (temp div 26 - 1) [] @ [?c]"
      using less [OF smaller] .
    finally show ?thesis using a by simp
  next
    case False
    then show ?thesis by (simp add: columnIndexToLetter_loop.simps)
  qed
qed

lemma columnIndexToLetter_loop_step:
  "0 \<le> temp \<Longrightarrow> columnIndexToLetter_loop temp [] =
     columnIndexToLetter_loop (temp div 26 - 1) [] @ [char_of (temp mod 26 + 65)]"
  by (subst columnIndexToLetter_loop.simps, subst columnIndexToLetter_loop_append) simp

lemma letter_code:
  "0 \<le> r \<Longrightarrow> r < 26 \<Longrightarrow> (of_char (char_of (r + 65 :: int) :: char) :: int) = r + 65"
  by (simp add: of_char_of)

lemma columnIndexToLetter_loop_value:
  "-1 \<le> temp \<Longrightarrow>
   foldl (\<lambda>index c. index * 26 + (of_char c - 64)) (0::int)
     (columnIndexToLetter_loop temp []) = temp + 1"
proof (induction "nat (temp + 1)" arbitrary: temp rule: less_induct)
  case less
  show ?case
  proof (cases "temp \<ge> 0")
    case True
    have smaller: "nat (temp div 26 - 1 + 1) < nat (temp + 1)"
      using True by simp
    have ge: "-1 \<le> temp div 26 - 1" using True by simp
    have code: "(of_char (char_of (temp mod 26 + 65) :: char) :: int) = temp mod 26 + 65"
      by (rule letter_code) simp_all
    show ?thesis
      using less(1) [OF smaller ge] code
      by (simp add: columnIndexToLetter_loop_step [OF True])
  next
    case False
    with less.prems have "temp = -1" by simp
    then show ?thesis by (simp add: columnIndexToLetter_loop.simps)
  qed
qed

lemma columnIndexToLetter_loop_chars:
  "c \<in> set (columnIndexToLetter_loop temp letter) \<Longrightarrow> c \<in> set letter \<or> isUpperAZ c"
proof (induction temp letter rule: columnIndexToLetter_loop.induct)
  case (1 temp letter)
  show ?case
  proof (cases "temp \<ge> 0")
    case True
    then have "c \<in> set (columnIndexToLetter_loop (temp div 26 - 1)
        (char_of (temp mod 26 + 65) # letter))"
      using "1.prems" by (subst (asm) columnIndexToLetter_loop.simps) simp
    from "1.IH" [OF True this] show ?thesis
      by (auto simp: isUpperAZ_def letter_code)
  next
    case False
    then show ?thesis using "1.prems" by (subst (asm) columnIndexToLetter_loop.simps) simp
  qed
qed

text \<open>
  Claim C10 (as amended). For every natural number \<open>i\<close> below \<open>2 ^ 53\<close>, turning the
  0-based column index \<open>i\<close> into its column letters and reading the letters back gives
  \<open>i\<close> again.
\<close>

theorem column_letter_roundtrip:
  assumes "int i < 2 ^ 53"
  shows "columnLetterToIndex (columnIndexToLetter (int i)) = int i"
proof -
  let ?letters = "columnIndexToLetter_loop (int i) []"
  have exact: "foldl (\<lambda>index c. index * 26 + (of_char c - 64)) (0::int) ?letters = int i + 1"
    by (rule columnIndexToLetter_loop_value) simp
  have uppers: "\<forall>c\<in>set ?letters. isUpperAZ c"
    using columnIndexToLetter_loop_chars [of _ "int i" "[]"] by auto
  have "foldl (\<lambda>index c. index * 26 + (of_char c - 64)) (0::int) ?letters \<le> 2 ^ 53"
    using assms exact by simp
  with uppers
  have "foldl (\<lambda>index c. toDouble (toDouble (index * 26) + (of_char c - 64))) 0 ?letters =
        foldl (\<lambda>index c. index * 26 + (of_char c - 64)) 0 ?letters"
    by (intro foldl_letters_exact) simp_all
  then have "columnLetterToIndex (columnIndexToLetter (int i)) = toDouble (int i)"
    using exact by (simp add: columnLetterToIndex_def columnIndexToLetter_def)
  also have "\<dots> = int i" using assms by (intro toDouble_small) simp
  finally show ?thesis .
qed

text \<open>The index 27 is written \<^verbatim>\<open>AB\<close> and read back as 27.\<close>

theorem column_letter_roundtrip_witness:
  "columnIndexToLetter 27 = ''AB'' \<and> columnLetterToIndex ''AB'' = 27"
proof -
  have letters: "columnIndexToLetter (int 27) = ''AB''" by code_simp
  have small: "int 27 < 2 ^ 53" by simp
  from column_letter_roundtrip [OF small] show ?thesis
    using letters by simp
qed

text \<open>
  At \<open>2 ^ 53\<close> the last sum of \<^verbatim>\<open>columnLetterToIndex\<close> is \<open>2 ^ 53 + 1\<close>, which is
  rounded to \<open>2 ^ 53\<close>: the index that comes back is one less than the index that
  went in.
\<close>

theorem column_letter_roundtrip_counterexample:
  "columnLetterToIndex (columnIndexToLetter 9007199254740992) = 9007199254740991"
  by code_simp

section \<open>Properties of the merged chart data range\<close>

lemma Min_insert_if: "finite S \<Longrightarrow> Min (insert (x::int) S) = (if S = {} then x else min x (Min S))"
  by simp

lemma Max_insert_if: "finite S \<Longrightarrow> Max (insert (x::int) S) = (if S = {} then x else max x (Max S))"
  by simp

lemma Min_insert3:
  assumes "finite S"
  shows "Min (insert (a::int) (insert s (insert e S))) = Min (insert (min (min a s) e) S)"
  using assms by (simp add: Min_insert_if min.assoc)

lemma Max_insert3:
  assumes "finite S"
  shows "Max (insert (a::int) (insert s (insert e S))) = Max (insert (max (max a s) e) S)"
  using assms by (simp add: Max_insert_if max.assoc)

lemma rangeCols_Cons: "rangeCols (p # ps) = insert (startCol p) (insert (endCol p) (rangeCols ps))"
  by (auto simp: rangeCols_def)

lemma rangeRows_Cons: "rangeRows (p # ps) = insert (excelRange.startRow p) (insert (excelRange.endRow p) (rangeRows ps))"
  by (auto simp: rangeRows_def)

lemma finite_rangeCols: "finite (rangeCols ps)" by (simp add: rangeCols_def)
lemma finite_rangeRows: "finite (rangeRows ps)" by (simp add: rangeRows_def)

lemma foldl_mergeStep_Some:
  "foldl mergeStep (Some (a, b, c, d)) rs =
     Some (Min (insert a (rangeCols (List.map_filter parseExcelRange rs))),
           Min (insert b (rangeRows (List.map_filter parseExcelRange rs))),
           Max (insert c (rangeCols (List.map_filter parseExcelRange rs))),
           Max (insert d (rangeRows (List.map_filter parseExcelRange rs))))"
proof (induction rs arbitrary: a b c d)
  case Nil
  then show ?case by (simp add: rangeCols_def rangeRows_def)
next
  case (Cons r rs)
  show ?case
  proof (cases "parseExcelRange r")
    case None
    then show ?thesis using Cons.IH by (simp add: mergeStep_def)
  next
    case (Some p)
    then show ?thesis
      using Cons.IH
      by (simp add: mergeStep_def rangeCols_Cons rangeRows_Cons
          Min_insert3 [OF finite_rangeCols] Min_insert3 [OF finite_rangeRows]
          Max_insert3 [OF finite_rangeCols] Max_insert3 [OF finite_rangeRows]
          del: Min_insert Max_insert)
  qed
qed

lemma foldl_mergeStep_None:
  "foldl mergeStep None rs =
     (if List.map_filter parseExcelRange rs = [] then None
      else Some (Min (rangeCols (List.map_filter parseExcelRange rs)),
                 Min (rangeRows (List.map_filter parseExcelRange rs)),
                 Max (rangeCols (List.map_filter parseExcelRange rs)),
                 Max (rangeRows (List.map_filter parseExcelRange rs))))"
proof (induction rs)
  case Nil
  then show ?case by (simp add:)
next
  case (Cons r rs)
  show ?case
  proof (cases "parseExcelRange r")
    case None
    then show ?thesis using Cons.IH by (simp add: mergeStep_def)
  next
    case (Some p)
    have step: "mergeStep None r =
        Some (min (startCol p) (endCol p), min (excelRange.startRow p) (excelRange.endRow p),
              max (startCol p) (endCol p), max (excelRange.startRow p) (excelRange.endRow p))"
      using Some by (simp add: mergeStep_def)
    have mf: "List.map_filter parseExcelRange (r # rs) = p # List.map_filter parseExcelRange rs"
      using Some by (simp add:)
    show ?thesis
      unfolding mf foldl_Cons step foldl_mergeStep_Some
      by (simp add: rangeCols_Cons rangeRows_Cons
          Min_insert_if finite_rangeCols finite_rangeRows Max_insert_if min.assoc max.assoc
          del: Min_insert Max_insert)
  qed
qed


declare numToCol_loop.simps [simp del] showDigits.simps [simp del]

lemma upper_char_of: "0 \<le> r \<Longrightarrow> r < 26 \<Longrightarrow> isUpperAZ (char_of (65 + r :: int))"
  by (simp add: isUpperAZ_def of_char_of)

lemma digit_char_of: "0 \<le> r \<Longrightarrow> r < 10 \<Longrightarrow> isDigit (char_of (48 + r :: int))"
  by (simp add: isDigit_def of_char_of)

lemma numToCol_loop_chars:
  "c \<in> set (numToCol_loop num col) \<Longrightarrow> c \<in> set col \<or> isUpperAZ c"
proof (induction num col rule: numToCol_loop.induct)
  case (1 num col)
  show ?case
  proof (cases "num > 0")
    case True
    then have "c \<in> set (numToCol_loop ((num - 1) div 26) (char_of (65 + (num - 1) mod 26) # col))"
      using "1.prems" by (subst (asm) numToCol_loop.simps) simp
    from "1.IH" [OF True this] show ?thesis
      using upper_char_of [of "(num - 1) mod 26"] by auto
  next
    case False
    then show ?thesis using "1.prems" by (subst (asm) numToCol_loop.simps) simp
  qed
qed

lemma numToCol_chars: "c \<in> set (numToCol num) \<Longrightarrow> isUpperAZ c"
  using numToCol_loop_chars [of c num "[]"] by (simp add: numToCol_def)

lemma numToCol_nonempty: "1 \<le> num \<Longrightarrow> numToCol num \<noteq> []"
proof -
  assume "1 \<le> num"
  then have "numToCol_loop num [] =
      numToCol_loop ((num - 1) div 26) [char_of (65 + (num - 1) mod 26)]"
    by (subst numToCol_loop.simps) simp
  moreover have "numToCol_loop n col \<noteq> []" if "col \<noteq> []" for n col
    using that
  proof (induction n col rule: numToCol_loop.induct)
    case (1 num col)
    then show ?case by (subst numToCol_loop.simps) simp
  qed
  ultimately show ?thesis by (simp add: numToCol_def)
qed

lemma showDigits_chars: "0 \<le> n \<Longrightarrow> c \<in> set (showDigits n) \<Longrightarrow> isDigit c"
proof (induction n rule: showDigits.induct)
  case (1 n)
  show ?case
  proof (cases "n < 10")
    case True
    then have "showDigits n = [char_of (48 + n)]"
      by (subst showDigits.simps) simp
    then show ?thesis using "1.prems" digit_char_of [of n] True by simp
  next
    case False
    then have "showDigits n = showDigits (n div 10) @ [char_of (48 + n mod 10)]"
      by (subst showDigits.simps) simp
    then have "c \<in> set (showDigits (n div 10)) \<or> c = char_of (48 + n mod 10)"
      using "1.prems" by auto
    then show ?thesis
      using "1.IH" False "1.prems"(1) digit_char_of [of "n mod 10"] by auto
  qed
qed

lemma showInt_chars: "0 \<le> n \<Longrightarrow> c \<in> set (showInt n) \<Longrightarrow> isDigit c"
  using showDigits_chars by (simp add: showInt_def)

lemma colToNum1_ge1:
  assumes "col \<noteq> []" "\<forall>c\<in>set col. isUpperAZ c"
  shows "1 \<le> colToNum1 col"
proof -
  obtain a cs where col: "col = a # cs" using assms(1) by (cases col) auto
  have zero: "toDouble 0 = 0" by (simp add: toDouble_small)
  have "1 \<le> (of_char a - 64 :: int)" using assms(2) col by (simp add: isUpperAZ_def)
  then have "1 \<le> toDouble (of_char a - 64)" by (rule toDouble_ge1)
  then have "1 \<le> foldl (\<lambda>num c. toDouble (toDouble (num * 26) + (of_char c - 64)))
      (toDouble (of_char a - 64)) cs"
    using assms(2) col by (intro foldl_letters_ge1) auto
  then show ?thesis by (simp add: colToNum1_def col zero)
qed

lemma foldl_parseInt_ge:
  "\<forall>c\<in>set s. isDigit c \<Longrightarrow> 0 \<le> acc \<Longrightarrow>
     0 \<le> foldl (\<lambda>n c. n * 10 + (of_char c - 48)) (acc::int) s"
proof (induction s arbitrary: acc)
  case Nil
  then show ?case by simp
next
  case (Cons a s)
  have "0 \<le> acc * 10 + (of_char a - 48)"
    using Cons.prems by (simp add: isDigit_def)
  then show ?case using Cons.prems Cons.IH by simp
qed

lemma parseInt_ge0: "\<forall>c\<in>set s. isDigit c \<Longrightarrow> 0 \<le> parseInt s"
  by (simp add: parseInt_def foldl_parseInt_ge toDouble_nonneg)

lemma matchCell_Some:
  assumes "matchCell s = Some (col, row, t)"
  shows "col \<noteq> [] \<and> (\<forall>c\<in>set col. isUpperAZ c) \<and> (\<forall>c\<in>set row. isDigit c)"
proof -
  let ?s1 = "dropDollar s"
  let ?s2 = "dropDollar (dropWhile isUpperAZ ?s1)"
  from assms have "col = takeWhile isUpperAZ ?s1" "row = takeWhile isDigit ?s2" "col \<noteq> []"
    by (auto simp: matchCell_def Let_def split: if_splits)
  then show ?thesis by (auto dest: set_takeWhileD)
qed

lemma matchAfterBang_Some:
  assumes "matchAfterBang s = Some m"
  shows "1 \<le> startCol (buildRange pre m) \<and> 1 \<le> endCol (buildRange pre m) \<and>
         0 \<le> excelRange.startRow (buildRange pre m) \<and> 0 \<le> excelRange.endRow (buildRange pre m)"
proof -
  obtain c1 r1 e where m: "m = (c1, r1, e)" by (cases m) auto
  from assms obtain t where t: "matchCell s = Some (c1, r1, t)"
    by (auto simp: matchAfterBang_def m split: option.splits list.splits if_splits)
  note f1 = matchCell_Some [OF t]
  show ?thesis
  proof (cases e)
    case None
    then show ?thesis using f1
      by (simp add: buildRange_def m colToNum1_ge1 parseInt_ge0)
  next
    case (Some ce)
    obtain c2 r2 where ce: "ce = (c2, r2)" by (cases ce) auto
    from assms t Some ce obtain t' where "matchCell t' = Some (c2, r2, [])"
      by (auto simp: matchAfterBang_def m split: option.splits list.splits if_splits)
    note f2 = matchCell_Some [OF this]
    show ?thesis using f1 f2 Some ce
      by (simp add: buildRange_def m colToNum1_ge1 parseInt_ge0)
  qed
qed

lemma parseExcelRange_from_Some:
  "parseExcelRange_from pre s = Some p \<Longrightarrow>
     1 \<le> startCol p \<and> 1 \<le> endCol p \<and> 0 \<le> excelRange.startRow p \<and> 0 \<le> excelRange.endRow p"
proof (induction pre s rule: parseExcelRange_from.induct)
  case (1 pre)
  then show ?case by simp
next
  case (2 pre c cs)
  then show ?case
    by (auto split: if_splits option.splits dest: matchAfterBang_Some)
qed

lemma parseExcelRange_Some:
  "parseExcelRange r = Some p \<Longrightarrow>
     1 \<le> startCol p \<and> 1 \<le> endCol p \<and> 0 \<le> excelRange.startRow p \<and> 0 \<le> excelRange.endRow p"
  by (simp add: parseExcelRange_def parseExcelRange_from_Some)


lemma set_map_filter_iff:
  "y \<in> set (List.map_filter f xs) \<longleftrightarrow> (\<exists>x\<in>set xs. f x = Some y)"
  by (induction xs) (auto split: option.splits)

lemma rangeCols_ge1:
  "x \<in> rangeCols (List.map_filter parseExcelRange rs) \<Longrightarrow> 1 \<le> x"
  by (auto simp: rangeCols_def set_map_filter_iff dest: parseExcelRange_Some)

lemma rangeRows_ge0:
  "x \<in> rangeRows (List.map_filter parseExcelRange rs) \<Longrightarrow> 0 \<le> x"
  by (auto simp: rangeRows_def set_map_filter_iff dest: parseExcelRange_Some)

lemma rangeCols_empty: "rangeCols ps = {} \<longleftrightarrow> ps = []"
  by (simp add: rangeCols_def)

lemma rangeRows_empty: "rangeRows ps = {} \<longleftrightarrow> ps = []"
  by (simp add: rangeRows_def)

lemma a1_chars:
  assumes "0 \<le> r1" "0 \<le> r2"
    and "c \<in> set (numToCol c1 @ showInt r1 @ '':'' @ numToCol c2 @ showInt r2)"
  shows "isUpperAZ c \<or> isDigit c \<or> c = CHR '':''"
  using assms numToCol_chars showInt_chars by auto

subsection \<open>The text of the rectangle reads back as the rectangle\<close>

lemma numToCol_loop_append:
  "numToCol_loop num col = numToCol_loop num [] @ col"
proof (induction "nat num" arbitrary: num col rule: less_induct)
  case less
  show ?case
  proof (cases "num > 0")
    case True
    let ?c = "char_of (65 + (num - 1) mod 26) :: char"
    have smaller: "nat ((num - 1) div 26) < nat num"
      using True by simp
    have "numToCol_loop num col = numToCol_loop ((num - 1) div 26) (?c # col)"
      using True by (subst numToCol_loop.simps) simp
    also have "\<dots> = numToCol_loop ((num - 1) div 26) [] @ (?c # col)"
      using less [OF smaller] .
    finally have a: "numToCol_loop num col = numToCol_loop ((num - 1) div 26) [] @ (?c # col)" .
    have "numToCol_loop num [] = numToCol_loop ((num - 1) div 26) [?c]"
      using True by (subst numToCol_loop.simps) simp
    also have "\<dots> = numToCol_loop ((num - 1) div 26) [] @ [?c]"
      using less [OF smaller] .
    finally show ?thesis using a by simp
  next
    case False
    then show ?thesis by (simp add: numToCol_loop.simps)
  qed
qed

lemma numToCol_loop_step:
  "0 < num \<Longrightarrow> numToCol_loop num [] =
     numToCol_loop ((num - 1) div 26) [] @ [char_of (65 + (num - 1) mod 26)]"
  by (subst numToCol_loop.simps, subst numToCol_loop_append) simp

lemma numToCol_loop_value:
  "0 \<le> num \<Longrightarrow>
   foldl (\<lambda>num c. num * 26 + (of_char c - 64)) (0::int) (numToCol_loop num []) = num"
proof (induction "nat num" arbitrary: num rule: less_induct)
  case less
  show ?case
  proof (cases "num > 0")
    case True
    have smaller: "nat ((num - 1) div 26) < nat num"
      using True by simp
    have ge: "0 \<le> (num - 1) div 26" using True by simp
    have code: "(of_char (char_of (65 + (num - 1) mod 26) :: char) :: int) = 65 + (num - 1) mod 26"
      by (simp add: of_char_of)
    show ?thesis
      using less(1) [OF smaller ge] code
      by (simp add: numToCol_loop_step [OF True])
  next
    case False
    with less.prems have "num = 0" by simp
    then show ?thesis by (simp add: numToCol_loop.simps)
  qed
qed

text \<open>\<^verbatim>\<open>colToNum\<close> of \<^verbatim>\<open>parseExcelRange\<close> reads the letters of \<^verbatim>\<open>numToCol\<close> back.\<close>

lemma colToNum1_numToCol:
  assumes "0 \<le> num" and "num \<le> 2 ^ 53"
  shows "colToNum1 (numToCol num) = num"
proof -
  have exact: "foldl (\<lambda>num c. num * 26 + (of_char c - 64)) (0::int) (numToCol_loop num []) = num"
    using assms(1) by (rule numToCol_loop_value)
  have uppers: "\<forall>c\<in>set (numToCol_loop num []). isUpperAZ c"
    using numToCol_chars by (auto simp: numToCol_def)
  have "foldl (\<lambda>num c. num * 26 + (of_char c - 64)) (0::int) (numToCol_loop num []) \<le> 2 ^ 53"
    using assms(2) exact by simp
  with uppers
  have "foldl (\<lambda>num c. toDouble (toDouble (num * 26) + (of_char c - 64))) 0 (numToCol_loop num []) =
        foldl (\<lambda>num c. num * 26 + (of_char c - 64)) 0 (numToCol_loop num [])"
    by (intro foldl_letters_exact) simp_all
  then show ?thesis using exact by (simp add: colToNum1_def numToCol_def)
qed

lemma showDigits_value:
  "0 \<le> n \<Longrightarrow> foldl (\<lambda>n c. n * 10 + (of_char c - 48)) (0::int) (showDigits n) = n"
proof (induction n rule: showDigits.induct)
  case (1 n)
  show ?case
  proof (cases "n < 10")
    case True
    then have "showDigits n = [char_of (48 + n)]"
      by (subst showDigits.simps) simp
    moreover have "(of_char (char_of (48 + n) :: char) :: int) = 48 + n"
      using True "1.prems" by (simp add: of_char_of)
    ultimately show ?thesis by simp
  next
    case False
    then have "showDigits n = showDigits (n div 10) @ [char_of (48 + n mod 10)]"
      by (subst showDigits.simps) simp
    moreover have "(of_char (char_of (48 + n mod 10) :: char) :: int) = 48 + n mod 10"
      by (simp add: of_char_of)
    moreover have "foldl (\<lambda>n c. n * 10 + (of_char c - 48)) (0::int) (showDigits (n div 10)) = n div 10"
      using "1.IH" False "1.prems" by simp
    ultimately show ?thesis by simp
  qed
qed

text \<open>\<^verbatim>\<open>parseInt\<close> reads the digits of \<^verbatim>\<open>String(n)\<close> back.\<close>

lemma parseInt_showInt:
  assumes "0 \<le> n" and "n \<le> 2 ^ 53"
  shows "parseInt (showInt n) = n"
proof -
  have "toDouble n = n" using assms by (intro toDouble_exact) simp
  then show ?thesis using assms(1) by (simp add: parseInt_def showInt_def showDigits_value)
qed

text \<open>
  Claim C5 (as amended). For a non-empty list of references of which at least one
  parses, all with columns and rows up to \<open>2 ^ 53\<close>, \<^verbatim>\<open>mergeChartDataRanges\<close> returns
  the A1 text of the smallest rectangle that holds every parsed reference: least and
  greatest column and row over the start and end cells of the references that parse.
  The text has column letters, no \<^verbatim>\<open>!\<close> (no sheet qualifier) and no \<^verbatim>\<open>$\<close>, and its
  letters and digits read back as the columns and rows of the rectangle.
\<close>

theorem mergeChartDataRanges_bounding:
  assumes "ranges \<noteq> []"
    and "List.map_filter parseExcelRange ranges \<noteq> []"
    and "\<forall>x\<in>rangeCols (List.map_filter parseExcelRange ranges) \<union>
              rangeRows (List.map_filter parseExcelRange ranges). x \<le> 2 ^ 53"
  shows "let ps = List.map_filter parseExcelRange ranges;
             minCol = Min (rangeCols ps); minRow = Min (rangeRows ps);
             maxCol = Max (rangeCols ps); maxRow = Max (rangeRows ps)
         in mergeChartDataRanges ranges =
              numToCol minCol @ showInt minRow @ '':'' @ numToCol maxCol @ showInt maxRow
          \<and> 1 \<le> minCol \<and> minCol \<le> maxCol \<and> 0 \<le> minRow \<and> minRow \<le> maxRow
          \<and> CHR ''!'' \<notin> set (mergeChartDataRanges ranges)
          \<and> CHR ''$'' \<notin> set (mergeChartDataRanges ranges)
          \<and> colToNum1 (numToCol minCol) = minCol \<and> colToNum1 (numToCol maxCol) = maxCol
          \<and> parseInt (showInt minRow) = minRow \<and> parseInt (showInt maxRow) = maxRow"
proof -
  define ps where "ps = List.map_filter parseExcelRange ranges"
  have False: "ps \<noteq> []" using assms(2) by (simp add: ps_def)
  have res: "mergeChartDataRanges ranges =
          numToCol (Min (rangeCols ps)) @ showInt (Min (rangeRows ps)) @ '':'' @
          numToCol (Max (rangeCols ps)) @ showInt (Max (rangeRows ps))"
    using assms(1) False by (simp add: mergeChartDataRanges_def foldl_mergeStep_None ps_def)
  have c1: "1 \<le> Min (rangeCols ps)"
    using False rangeCols_ge1 [of _ ranges]
    by (simp add: finite_rangeCols rangeCols_empty ps_def)
  have r1: "0 \<le> Min (rangeRows ps)"
    using False rangeRows_ge0 [of _ ranges]
    by (simp add: finite_rangeRows rangeRows_empty ps_def)
  have cc: "Min (rangeCols ps) \<le> Max (rangeCols ps)"
    using False by (simp add: finite_rangeCols rangeCols_empty)
  have rr: "Min (rangeRows ps) \<le> Max (rangeRows ps)"
    using False by (simp add: finite_rangeRows rangeRows_empty)
  from r1 rr have r2: "0 \<le> Max (rangeRows ps)" by simp
  have "Max (rangeCols ps) \<in> rangeCols ps"
    using False by (intro Max_in) (simp_all add: finite_rangeCols rangeCols_empty)
  then have c3: "Max (rangeCols ps) \<le> 2 ^ 53" using assms(3) by (simp add: ps_def)
  have "Max (rangeRows ps) \<in> rangeRows ps"
    using False by (intro Max_in) (simp_all add: finite_rangeRows rangeRows_empty)
  then have r3: "Max (rangeRows ps) \<le> 2 ^ 53" using assms(3) by (simp add: ps_def)
  have chars: "isUpperAZ c \<or> isDigit c \<or> c = CHR '':''"
    if "c \<in> set (mergeChartDataRanges ranges)" for c
    using that a1_chars [OF r1 r2] unfolding res by blast
  have bang: "CHR ''!'' \<notin> set (mergeChartDataRanges ranges)"
    using chars [of "CHR ''!''"] by (auto simp: isUpperAZ_def isDigit_def)
  have dollar: "CHR ''$'' \<notin> set (mergeChartDataRanges ranges)"
    using chars [of "CHR ''$''"] by (auto simp: isUpperAZ_def isDigit_def)
  have back1: "colToNum1 (numToCol (Min (rangeCols ps))) = Min (rangeCols ps)"
    using c1 cc c3 by (intro colToNum1_numToCol) simp_all
  have back2: "colToNum1 (numToCol (Max (rangeCols ps))) = Max (rangeCols ps)"
    using c1 cc c3 by (intro colToNum1_numToCol) simp_all
  have back3: "parseInt (showInt (Min (rangeRows ps))) = Min (rangeRows ps)"
    using r1 rr r3 by (intro parseInt_showInt) simp_all
  have back4: "parseInt (showInt (Max (rangeRows ps))) = Max (rangeRows ps)"
    using r2 r3 by (intro parseInt_showInt) simp_all
  show ?thesis
    unfolding ps_def [symmetric] Let_def
    using res c1 cc r1 rr bang dollar back1 back2 back3 back4 by simp
qed

text \<open>The example of the specification: two references on one sheet give \<^verbatim>\<open>A1:D6\<close>.\<close>

theorem mergeChartDataRanges_bounding_witness:
  "mergeChartDataRanges [''Sheet1!$A$1:$A$6'', ''Sheet1!$B$1:$D$6''] = ''A1:D6''"
proof -
  let ?rs = "[''Sheet1!$A$1:$A$6'', ''Sheet1!$B$1:$D$6'']"
  have ne: "?rs \<noteq> []" by simp
  have ps: "List.map_filter parseExcelRange ?rs =
      [\<lparr>sheetName = ''Sheet1'', startCol = 1, excelRange.startRow = 1, endCol = 1, excelRange.endRow = 6\<rparr>,
       \<lparr>sheetName = ''Sheet1'', startCol = 2, excelRange.startRow = 1, endCol = 4, excelRange.endRow = 6\<rparr>]"
    by code_simp
  have some: "List.map_filter parseExcelRange ?rs \<noteq> []" unfolding ps by simp
  have small: "\<forall>x\<in>rangeCols (List.map_filter parseExcelRange ?rs) \<union>
                    rangeRows (List.map_filter parseExcelRange ?rs). x \<le> 2 ^ 53"
    unfolding ps by (simp add: rangeCols_def rangeRows_def)
  have str: "numToCol 1 @ showInt 1 @ '':'' @ numToCol 4 @ showInt 6 = ''A1:D6''"
    by code_simp
  from mergeChartDataRanges_bounding [OF ne some small]
  have "mergeChartDataRanges ?rs = numToCol 1 @ showInt 1 @ '':'' @ numToCol 4 @ showInt 6"
    unfolding ps Let_def by (simp add: rangeCols_def rangeRows_def)
  then show ?thesis unfolding str .
qed

text \<open>
  A whole-column reference holds \<^verbatim>\<open>!\<close> and \<^verbatim>\<open>$\<close> but does not parse; what comes back
  for it keeps the sheet qualifier and is no rectangle.
\<close>

theorem mergeChartDataRanges_unparsed_counterexample:
  "mergeChartDataRanges [''Sheet1!$A:$A''] = ''Sheet1!$A:$A''"
  by code_simp

section \<open>Properties of the number-format resolver\<close>

text \<open>
  Claim C6. For the format \<^verbatim>\<open>#,##0.00\<close> the resolver reports two decimal places and a
  thousands separator, and does not report a percent format: the key \<^verbatim>\<open>isPercent\<close> is
  not set, which reads as false.
\<close>

theorem parseNumFormat_thousands_two_decimals:
  "parseNumFormat ''#,##0.00'' =
     Some \<lparr> fmtType = Some ''number'', decimalPlaces = Some 2, isPercent = None,
            isCurrency = None, isScientific = None, hasThousandsSeparator = Some True,
            isDateTime = None, hasNegativeFormat = None, currencySymbol = None \<rparr>"
  by code_simp

section \<open>Properties of the chart extractor\<close>

lemma classifyChart_no_family_tag:
  assumes "\<forall>tag\<in>set familyTags. \<not> str_includes chartXml tag"
  shows "classifyChart chartXml = Column"
  using assms by (simp add: classifyChart_def familyTags_def)

lemma classifyChart_not_Unknown: "classifyChart chartXml \<noteq> Unknown"
  by (simp add: classifyChart_def Let_def)

text \<open>
  Claim C1 (as amended). A chart whose XML is no pivot chart and holds none of the
  family tags is emitted with the chart type \<^verbatim>\<open>column\<close>, the value the variable has
  before the chain of tests.
\<close>

theorem chart_without_family_tag_is_column:
  assumes "\<not> str_includes chartXml ''<c:pivotSource''"
    and "\<not> str_includes chartXml ''<c15:pivotSource''"
    and "\<forall>tag\<in>set familyTags. \<not> str_includes chartXml tag"
  shows "\<exists>p. readChartPart (Some chartXml) = Some p \<and> chartType p = Column"
  using assms(1,2) classifyChart_no_family_tag [OF assms(3)]
  by (simp add: readChartPart_def)

theorem chart_without_family_tag_is_column_witness:
  "\<exists>p. readChartPart (Some ''<c:chartSpace><c:chart/></c:chartSpace>'') = Some p \<and>
       chartType p = Column"
proof -
  let ?xml = "''<c:chartSpace><c:chart/></c:chartSpace>''"
  have a: "\<not> str_includes ?xml ''<c:pivotSource''" by code_simp
  have b: "\<not> str_includes ?xml ''<c15:pivotSource''" by code_simp
  have c: "\<forall>tag\<in>set familyTags. \<not> str_includes ?xml tag" by code_simp
  show ?thesis by (rule chart_without_family_tag_is_column [OF a b c])
qed

text \<open>
  A chart part without any family tag: the chart that is emitted has the type
  \<^verbatim>\<open>column\<close>, not \<^verbatim>\<open>unknown\<close>.
\<close>

theorem chart_without_family_tag_counterexample:
  "readChartPart (Some ''<c:chartSpace><c:chart/></c:chartSpace>'') =
     Some \<lparr> chartType = Column, dataRange = [], title = [] \<rparr>"
  by code_simp

text \<open>No chart that the extractor emits has the type \<^verbatim>\<open>unknown\<close>.\<close>

lemma readChartPart_not_Unknown:
  "readChartPart chartFile = Some p \<Longrightarrow> chartType p \<noteq> Unknown"
  using classifyChart_not_Unknown
  by (auto simp: readChartPart_def split: option.splits if_splits)

section \<open>Properties of the pivot-table extractor\<close>

lemma locationOfRef_startRow:
  "locationOfRef refRange = (r, c, Some occ) \<Longrightarrow> startRow occ = r"
  by (auto simp: locationOfRef_def split: option.splits)

lemma pivotLocation_startRow:
  "pivotLocation pivotTableXml = (r, c, Some occ) \<Longrightarrow> startRow occ = r"
  by (auto simp: pivotLocation_def split: option.splits dest: locationOfRef_startRow)

lemma filterFields_pivotPlacementOf:
  "filterFields (pivotPlacementOf pivotTableXml) = pageFields pivotTableXml"
  by (simp add: pivotPlacementOf_def reserveFilterRows_def Let_def split: prod.splits)

lemma clamp_toDouble:
  assumes "x \<le> 2 ^ 53"
  shows "max 0 (toDouble x) = max 0 x"
proof (cases "0 \<le> x")
  case True
  then have "toDouble x = x" using assms by (intro toDouble_exact) simp
  then show ?thesis by simp
next
  case False
  then have "toDouble x \<le> 0" by (intro toDouble_nonpos) simp
  then show ?thesis using False by simp
qed

text \<open>
  Claim C4 (as amended). Let the location of a pivot-table part give the 0-based start
  row \<open>r\<close> with \<open>0 \<le> r < 2 ^ 53\<close> (rows of a reference count from 1), and let the
  part have \<open>n\<close> page fields. Then the anchor row that is emitted is \<open>r - 2 * n\<close>,
  clamped at 0, and the occupied range, when the location gives one, starts at the same
  row.
\<close>

theorem pivot_filter_rows_shift:
  assumes "pivotLocation pivotTableXml = (r, c, occ)" and "0 \<le> r" and "r < 2 ^ 53"
  shows "anchorRow (pivotPlacementOf pivotTableXml) =
           max 0 (r - 2 * int (length (pageFields pivotTableXml))) \<and>
         map_option startRow (occupiedRange (pivotPlacementOf pivotTableXml)) =
           map_option (\<lambda>_. max 0 (r - 2 * int (length (pageFields pivotTableXml)))) occ"
proof -
  define k where "k = int (length (pageFields pivotTableXml)) * 2"
  have "r - k \<le> 2 ^ 53" using assms(3) by (simp add: k_def)
  then have clamp: "max 0 (toDouble (r - k)) = max 0 (r - k)" by (rule clamp_toDouble)
  show ?thesis
  proof (cases occ)
    case None
    then show ?thesis
      using assms(1,2) clamp
      by (simp add: pivotPlacementOf_def reserveFilterRows_def Let_def k_def mult.commute)
  next
    case (Some rect)
    have "startRow rect = r"
      using assms(1) Some pivotLocation_startRow by simp
    then show ?thesis
      using assms(1,2) Some clamp
      by (simp add: pivotPlacementOf_def reserveFilterRows_def Let_def k_def mult.commute)
  qed
qed

text \<open>
  The example of the specification: two page fields and a location that starts in row
  11 (0-based row 10) give the anchor row 6.
\<close>

theorem pivot_filter_rows_shift_witness:
  "anchorRow (pivotPlacementOf
     ''<pivotTableDefinition name=\"P\" cacheId=\"1\"><location ref=\"A11:C20\" firstHeaderRow=\"1\"/><pageFields count=\"2\"><pageField fld=\"3\" hier=\"-1\"/><pageField fld=\"4\" hier=\"-1\"/></pageFields></pivotTableDefinition>'') = 6 \<and>
   map_option startRow (occupiedRange (pivotPlacementOf
     ''<pivotTableDefinition name=\"P\" cacheId=\"1\"><location ref=\"A11:C20\" firstHeaderRow=\"1\"/><pageFields count=\"2\"><pageField fld=\"3\" hier=\"-1\"/><pageField fld=\"4\" hier=\"-1\"/></pageFields></pivotTableDefinition>'')) = Some 6"
proof -
  let ?xml = "''<pivotTableDefinition name=\"P\" cacheId=\"1\"><location ref=\"A11:C20\" firstHeaderRow=\"1\"/><pageFields count=\"2\"><pageField fld=\"3\" hier=\"-1\"/><pageField fld=\"4\" hier=\"-1\"/></pageFields></pivotTableDefinition>''"
  have loc: "pivotLocation ?xml =
      (10, 0, Some \<lparr> startRow = 10, startColumn = 0, endRow = 19, endColumn = 2 \<rparr>)"
    by code_simp
  have n: "pageFields ?xml = [3, 4]"
    by code_simp
  have r: "(0::int) \<le> 10" by simp
  have small: "(10::int) < 2 ^ 53" by simp
  from pivot_filter_rows_shift [OF loc r small] show ?thesis
    unfolding n by simp
qed

text \<open>
  A location whose reference starts in row 0 and a part without page fields: the start
  row \<open>-1\<close> is emitted as it is, since the source clamps only inside
  \<^verbatim>\<open>if (filterRowCount > 0)\<close>; the row minus \<open>2 * 0\<close>, clamped at 0, would be 0.
\<close>

theorem pivot_filter_rows_unclamped_counterexample:
  "pageFields ''<pivotTableDefinition name=\"P\"><location ref=\"A0:C5\"/></pivotTableDefinition>'' = [] \<and>
   anchorRow (pivotPlacementOf
     ''<pivotTableDefinition name=\"P\"><location ref=\"A0:C5\"/></pivotTableDefinition>'') = - 1 \<and>
   map_option startRow (occupiedRange (pivotPlacementOf
     ''<pivotTableDefinition name=\"P\"><location ref=\"A0:C5\"/></pivotTableDefinition>'')) = Some (- 1)"
  by code_simp

section \<open>Properties of the cells of a sheet\<close>

subsection \<open>Every stored cell carries content\<close>

lemma cellOf_store:
  "cellOf (cellData(r \<mapsto> (rowOf cellData r)(c \<mapsto> cv))) r' c' =
     (if r' = r \<and> c' = c then Some cv else cellOf cellData r' c')"
  by (simp add: cellOf_def rowOf_def split: option.splits)

lemma cellOf_row_only:
  "cellOf (cellData(r \<mapsto> rowOf cellData r)) r' c' = cellOf cellData r' c'"
  by (simp add: cellOf_def rowOf_def split: option.splits)

lemma sparseCells_empty: "sparseCells Map.empty"
  by (simp add: sparseCells_def cellOf_def)

lemma withFormula_cellV:
  "cellV (withFormula cell rawValue cv) = Some v \<Longrightarrow> cellV cv = Some v \<or> (v = rawValue \<and> cellF (withFormula cell rawValue cv) \<noteq> None)"
  by (auto simp: withFormula_def Let_def split: if_splits option.splits)

lemma withFormula_keeps_value:
  "cellV cv = Some rawValue \<Longrightarrow> cellV (withFormula cell rawValue cv) = Some rawValue"
  by (auto simp: withFormula_def Let_def split: if_splits option.splits)

lemma withFormula_sets_formula:
  "cellType cell = ValueFormula \<Longrightarrow> cellFormula cell = Some formula \<Longrightarrow> formula \<noteq> [] \<Longrightarrow>
     cellF (withFormula cell rawValue cv) \<noteq> None"
  by (auto simp: withFormula_def Let_def)

lemma convertCellStyle_Some:
  "convertCellStyle parseColor style = Some s \<Longrightarrow> styleHasKeys s"
  by (simp add: convertCellStyle_def Let_def split: if_splits)

lemma convertCell_Store:
  fixes h :: "('c, 'v, 'o, 'p, 'l) helpers" and cv :: "('o, 'p, 'l) univerCell"
  assumes "convertCell h cell = Store cv"
  shows "carriesContent cv"
proof (cases "cellType cell = ValueNull")
  case True
  then show ?thesis
    using assms
    by (auto simp: convertCell_def carriesContent_def emptyCell_def
        dest: convertCellStyle_Some split: option.splits)
next
  case False
  define rawValue where "rawValue = checkedValue h cell"
  define hasFormula where "hasFormula \<longleftrightarrow> cellType cell = ValueFormula \<and>
      (case cellFormula cell of Some formula \<Rightarrow> formula \<noteq> [] | None \<Rightarrow> False)"
  define cv1 :: "('o, 'p, 'l) univerCell" where
    "cv1 = (if hasValue rawValue then emptyCell \<lparr> cellV := Some rawValue \<rparr> else emptyCell)"
  define cv2 where "cv2 = (case getCellType cell rawValue of
       Some k \<Rightarrow> if hasValue rawValue then cv1 \<lparr> cellT := Some k \<rparr> else cv1 | None \<Rightarrow> cv1)"
  define cv3 where "cv3 = withFormula cell rawValue cv2"
  have some: "hasValue rawValue \<or> hasFormula"
    using assms False
    by (auto simp: convertCell_def Let_def rawValue_def hasFormula_def split: if_splits)
  have shape: "cellV cv = cellV cv3 \<and> cellF cv = cellF cv3"
    using assms False
    by (auto simp: convertCell_def Let_def rawValue_def cv1_def cv2_def cv3_def
        split: if_splits option.splits)
  show ?thesis
  proof (cases "hasValue rawValue")
    case True
    then have "cellV cv2 = Some rawValue"
      by (auto simp: cv1_def cv2_def split: option.splits)
    then have "cellV cv3 = Some rawValue"
      unfolding cv3_def by (rule withFormula_keeps_value)
    then show ?thesis using True shape by (simp add: carriesContent_def)
  next
    case False
    with some have "hasFormula" by simp
    then obtain formula where "cellType cell = ValueFormula" "cellFormula cell = Some formula" "formula \<noteq> []"
      by (auto simp: hasFormula_def split: option.splits)
    then have "cellF cv3 \<noteq> None"
      unfolding cv3_def by (rule withFormula_sets_formula)
    then show ?thesis using shape by (simp add: carriesContent_def)
  qed
qed


lemma sparseCells_applyOutcome:
  assumes "sparseCells cellData" and "\<And>cv. out = Store cv \<Longrightarrow> carriesContent cv"
  shows "sparseCells (applyOutcome cellData r c out)"
proof (cases out)
  case NoCell
  then show ?thesis using assms(1) by (simp add: applyOutcome_def)
next
  case RowOnly
  then show ?thesis using assms(1)
    by (simp add: applyOutcome_def sparseCells_def cellOf_row_only)
next
  case (Store cv)
  then show ?thesis using assms
    by (simp add: applyOutcome_def sparseCells_def cellOf_store)
qed

lemma sparseCells_eachCell:
  "sparseCells (fst st) \<Longrightarrow> sparseCells (fst (eachCell h rowIndex st numbered))"
  by (cases st, cases numbered)
     (simp add: eachCell_def Let_def sparseCells_applyOutcome convertCell_Store)

lemma sparseCells_foldl_eachCell:
  "sparseCells (fst st) \<Longrightarrow> sparseCells (fst (foldl (eachCell h rowIndex) st cells))"
  by (induction cells arbitrary: st) (simp_all add: sparseCells_eachCell)

lemma sparseCells_eachRow:
  "sparseCells (fst st) \<Longrightarrow> sparseCells (fst (eachRow h st row))"
  by (cases st) (simp add: eachRow_def Let_def sparseCells_foldl_eachCell)

lemma sparseCells_foldl_eachRow:
  "sparseCells (fst st) \<Longrightarrow> sparseCells (fst (foldl (eachRow h) st rows))"
  by (induction rows arbitrary: st) (simp_all add: sparseCells_eachRow)

lemma cellOf_setEdge:
  "cellOf (setEdge assign cellData r c) r' c' =
     (if r' = r \<and> c' = c
      then Some ((case cellOf cellData r c of None \<Rightarrow> emptyCell | Some cv \<Rightarrow> cv)
             \<lparr> cellS := Some ((case cellS (case cellOf cellData r c of None \<Rightarrow> emptyCell | Some cv \<Rightarrow> cv) of
                                  None \<Rightarrow> emptyStyle | Some st \<Rightarrow> st)
                  \<lparr> styleBd := Some (assign (bordersAt cellData r c)) \<rparr>) \<rparr>)
      else cellOf cellData r' c')"
  by (auto simp: setEdge_def Let_def cellOf_def rowOf_def bordersAt_def emptyCell_def emptyStyle_def
      split: option.splits)

lemma sparseCells_setEdge:
  "sparseCells cellData \<Longrightarrow> sparseCells (setEdge assign cellData r c)"
  by (auto simp: sparseCells_def cellOf_setEdge carriesContent_def styleHasKeys_def
      split: if_splits)

lemma sparseCells_alongRow:
  "sparseCells cellData \<Longrightarrow> sparseCells (alongRow assign r cols cellData)"
  unfolding alongRow_def
  by (induction cols arbitrary: cellData) (simp_all add: sparseCells_setEdge)

lemma sparseCells_alongColumn:
  "sparseCells cellData \<Longrightarrow> sparseCells (alongColumn assign c rows cellData)"
  unfolding alongColumn_def
  by (induction rows arbitrary: cellData) (simp_all add: sparseCells_setEdge)

lemma sparseCells_blocks:
  "sparseCells cellData \<Longrightarrow> sparseCells (topBlock parseColor b rg cellData)"
  "sparseCells cellData \<Longrightarrow> sparseCells (bottomBlock parseColor b rg cellData)"
  "sparseCells cellData \<Longrightarrow> sparseCells (leftBlock parseColor b rg cellData)"
  "sparseCells cellData \<Longrightarrow> sparseCells (rightBlock parseColor b rg cellData)"
  by (simp_all add: topBlock_def bottomBlock_def leftBlock_def rightBlock_def
      sparseCells_alongRow sparseCells_alongColumn split: option.splits)

lemma sparseCells_mergeBorders:
  "sparseCells cellData \<Longrightarrow> sparseCells (mergeBorders parseColor cellData m)"
  by (simp add: mergeBorders_def sparseCells_blocks split: option.splits)

lemma sparseCells_foldl_mergeBorders:
  "sparseCells cellData \<Longrightarrow> sparseCells (foldl (mergeBorders parseColor) cellData ms)"
  by (induction ms arbitrary: cellData) (simp_all add: sparseCells_mergeBorders)

lemma sparseCells_convertSheet:
  "sparseCells (sheetCellData (convertSheet h sheetKey sheetIndex worksheet))"
proof -
  obtain cd maxRow maxCol where rows:
    "foldl (eachRow h) (Map.empty, 0, 0) (worksheetRows worksheet) = (cd, maxRow, maxCol)"
    by (metis prod_cases3)
  have "sparseCells (fst (foldl (eachRow h) (Map.empty, 0, 0) (worksheetRows worksheet)))"
    by (rule sparseCells_foldl_eachRow) (simp add: sparseCells_empty)
  then have "sparseCells cd" using rows by simp
  then have "sparseCells (foldl (mergeBorders (parseExcelColor h)) cd (worksheetMerges worksheet))"
    by (rule sparseCells_foldl_mergeBorders)
  then show ?thesis
    by (simp add: convertSheet_def sheetCells_def rows)
qed

lemma sheets_forEachWorksheet:
  assumes "sheets (forEachWorksheet h sheetKeyOf wb indexed) key = Some sh"
  shows "sheets wb key = Some sh \<or>
         (\<exists>sheetKey sheetIndex worksheet. sh = convertSheet h sheetKey sheetIndex worksheet)"
  using assms
  by (cases indexed) (auto simp: forEachWorksheet_def Let_def split: option.splits if_splits)

lemma sheets_foldl_forEachWorksheet:
  assumes "sheets (foldl (forEachWorksheet h sheetKeyOf) wb xs) key = Some sh"
  shows "sheets wb key = Some sh \<or>
         (\<exists>sheetKey sheetIndex worksheet. sh = convertSheet h sheetKey sheetIndex worksheet)"
  using assms
proof (induction xs arbitrary: wb)
  case Nil
  then show ?case by simp
next
  case (Cons x xs)
  from Cons.IH [of "forEachWorksheet h sheetKeyOf wb x"] Cons.prems
  show ?case using sheets_forEachWorksheet by fastforce
qed

text \<open>
  Claim C9. In every sheet that the import produces, a cell that is present in
  \<^verbatim>\<open>cellData\<close> carries a value (one that is not \<^verbatim>\<open>null\<close>, \<^verbatim>\<open>undefined\<close> or the
  empty string), a formula or a style (a style object with at least one key): a cell
  with no value, no formula and no style, or with an empty style object, is not
  present.
\<close>

theorem cellData_is_sparse:
  assumes "sheets (importWorkbook h sheetKeyOf worksheets) key = Some sh"
    and "cellOf (sheetCellData sh) r c = Some cv"
  shows "carriesContent cv"
proof -
  have "sheets (foldl (forEachWorksheet h sheetKeyOf) \<lparr>sheetOrder = [], sheets = Map.empty\<rparr>
            (enumerate 0 worksheets)) key = Some sh"
    using assms(1) by (simp add: importWorkbook_def)
  from sheets_foldl_forEachWorksheet [OF this]
  obtain sheetKey sheetIndex worksheet
    where "sh = convertSheet h sheetKey sheetIndex worksheet"
    by auto
  then have "sparseCells (sheetCellData sh)"
    by (simp add: sparseCells_convertSheet)
  then show ?thesis using assms(2) by (simp add: sparseCells_def)
qed

subsection \<open>The borders of a merge reach its perimeter\<close>





























section \<open>Properties of the sheet order\<close>

lemma forEachWorksheet_None [simp]: "forEachWorksheet h sheetKeyOf wb (i, None) = wb"
  by (simp add: forEachWorksheet_def)

lemma forEachWorksheet_Some:
  "forEachWorksheet h sheetKeyOf wb (i, Some w) =
     wb \<lparr> sheetOrder := sheetOrder wb @ [sheetKeyOf i],
          sheets := (sheets wb)(sheetKeyOf i \<mapsto> convertSheet h (sheetKeyOf i) i w) \<rparr>"
  by (simp add: forEachWorksheet_def Let_def)

text \<open>
  The loop, entry by entry: the keys are appended in the order of the entries that
  are worksheets.
\<close>

lemma sheetOrder_foldl:
  "sheetOrder (foldl (forEachWorksheet h sheetKeyOf) wb xs) =
     sheetOrder wb @
       map (\<lambda>(i, w). sheetKeyOf i)
         (List.map_filter (\<lambda>(i, entry). map_option (\<lambda>w. (i, w)) entry) xs)"
proof (induction xs arbitrary: wb)
  case Nil
  then show ?case by simp
next
  case (Cons x xs)
  obtain i entry where x: "x = (i, entry)" by (cases x)
  show ?case
    by (cases entry) (simp_all add: x Cons.IH forEachWorksheet_Some)
qed

text \<open>Each sheet is stored under its key, a later one over an earlier one with the same key.\<close>

lemma sheets_foldl:
  "sheets (foldl (forEachWorksheet h sheetKeyOf) wb xs) key =
     (case map_of (rev (map (\<lambda>(i, w). (sheetKeyOf i, convertSheet h (sheetKeyOf i) i w))
              (List.map_filter (\<lambda>(i, entry). map_option (\<lambda>w. (i, w)) entry) xs))) key of
        Some sh \<Rightarrow> Some sh
      | None \<Rightarrow> sheets wb key)"
proof (induction xs arbitrary: wb)
  case Nil
  then show ?case by simp
next
  case (Cons x xs)
  obtain i entry where x: "x = (i, entry)" by (cases x)
  show ?case
  proof (cases entry)
    case None
    then show ?thesis using x by (simp add: Cons.IH)
  next
    case (Some w)
    then show ?thesis
      using x
      by (simp add: Cons.IH forEachWorksheet_Some map_add_def split: option.splits)
  qed
qed

lemma sheetOrder_importWorkbook:
  "sheetOrder (importWorkbook h sheetKeyOf worksheets) =
     map (\<lambda>(i, w). sheetKeyOf i) (visited worksheets)"
  by (simp add: importWorkbook_def sheetOrder_foldl visited_def)

lemma sheets_importWorkbook:
  "sheets (importWorkbook h sheetKeyOf worksheets) key =
     map_of (rev (map (\<lambda>(i, w). (sheetKeyOf i, convertSheet h (sheetKeyOf i) i w))
       (visited worksheets))) key"
  by (simp add: importWorkbook_def sheets_foldl visited_def split: option.splits)

text \<open>The entries that are visited, when every entry is a worksheet.\<close>

lemma map_filter_enumerate_Some:
  "List.map_filter (\<lambda>(i, entry). map_option (\<lambda>w. (i, w)) entry) (enumerate n (map Some ws)) =
     enumerate n ws"
  by (induction ws arbitrary: n) simp_all

lemma visited_all: "visited (map Some ws) = enumerate 0 ws"
  by (simp add: visited_def map_filter_enumerate_Some)

lemma length_visited: "length (visited worksheets) = length (filter (\<lambda>e. e \<noteq> None) worksheets)"
proof -
  have "length (List.map_filter (\<lambda>(i, entry). map_option (\<lambda>w. (i, w)) entry) (enumerate n xs)) =
        length (filter (\<lambda>e. e \<noteq> None) xs)" for n and xs :: "'a option list"
    by (induction xs arbitrary: n) (auto split: option.splits)
  then show ?thesis by (simp add: visited_def)
qed

text \<open>
  Claim C8. \<^verbatim>\<open>sheetOrder\<close> holds the key of every worksheet of the source, of a
  worksheet without cells as of any other, in the order of the source, and nothing
  else: it has as many entries as the source has worksheets. When the keys are
  distinct, the sheet stored under the \<open>j\<close>-th key is the \<open>j\<close>-th worksheet, converted.
\<close>

theorem sheetOrder_matches_worksheets:
  "sheetOrder (importWorkbook h sheetKeyOf worksheets) =
     map (\<lambda>(i, w). sheetKeyOf i) (visited worksheets) \<and>
   length (sheetOrder (importWorkbook h sheetKeyOf worksheets)) =
     length (filter (\<lambda>e. e \<noteq> None) worksheets) \<and>
   (distinct (sheetOrder (importWorkbook h sheetKeyOf worksheets)) \<longrightarrow>
      (\<forall>j < length (visited worksheets).
         sheets (importWorkbook h sheetKeyOf worksheets)
           (sheetOrder (importWorkbook h sheetKeyOf worksheets) ! j) =
         Some (convertSheet h (sheetKeyOf (fst (visited worksheets ! j)))
                 (fst (visited worksheets ! j)) (snd (visited worksheets ! j)))))"
proof (intro conjI impI allI)
  show order: "sheetOrder (importWorkbook h sheetKeyOf worksheets) =
      map (\<lambda>(i, w). sheetKeyOf i) (visited worksheets)"
    by (rule sheetOrder_importWorkbook)
  show "length (sheetOrder (importWorkbook h sheetKeyOf worksheets)) =
      length (filter (\<lambda>e. e \<noteq> None) worksheets)"
    by (simp add: order length_visited)
  fix j
  assume dist: "distinct (sheetOrder (importWorkbook h sheetKeyOf worksheets))"
    and j: "j < length (visited worksheets)"
  let ?kv = "map (\<lambda>(i, w). (sheetKeyOf i, convertSheet h (sheetKeyOf i) i w)) (visited worksheets)"
  have keys: "map fst ?kv = sheetOrder (importWorkbook h sheetKeyOf worksheets)"
    by (simp add: order split_def comp_def)
  have d: "distinct (map fst (rev ?kv))"
    using dist keys by (simp add: rev_map [symmetric])
  have "j < length ?kv" using j by simp
  then have "?kv ! j \<in> set ?kv" by (rule nth_mem)
  then have mem: "(fst (?kv ! j), snd (?kv ! j)) \<in> set (rev ?kv)" by simp
  have "map_of (rev ?kv) (fst (?kv ! j)) = Some (snd (?kv ! j))"
    using d mem by (rule map_of_is_SomeI)
  moreover have "fst (?kv ! j) = sheetOrder (importWorkbook h sheetKeyOf worksheets) ! j"
    using j by (simp add: order split_def)
  moreover have "snd (?kv ! j) = convertSheet h (sheetKeyOf (fst (visited worksheets ! j)))
                 (fst (visited worksheets ! j)) (snd (visited worksheets ! j))"
    using j by (simp add: split_def)
  ultimately show "sheets (importWorkbook h sheetKeyOf worksheets)
           (sheetOrder (importWorkbook h sheetKeyOf worksheets) ! j) =
         Some (convertSheet h (sheetKeyOf (fst (visited worksheets ! j)))
                 (fst (visited worksheets ! j)) (snd (visited worksheets ! j)))"
    by (simp add: sheets_importWorkbook)
qed

section \<open>The claims on the small workbook\<close>

text \<open>
  C9 on the small workbook: the formula cell is present and carries its formula; the
  empty cell beside it is not present.
\<close>

theorem cellData_is_sparse_witness:
  "cellOf (sheetCellData (convertSheet exampleHelpers (exampleKey 0) 0 exampleWorksheet)) 0 2 =
     Some \<lparr> cellV = Some (JStr []), cellT = None, cellF = Some ''=SUM(A1:A3)'', cellP = None,
            cellLink = None, cellS = None \<rparr> \<and>
   carriesContent \<lparr> cellV = Some (JStr [] :: unit jsValue), cellT = None,
     cellF = Some ''=SUM(A1:A3)'', cellP = None :: unit option, cellLink = None :: unit option,
     cellS = None \<rparr> \<and>
   cellOf (sheetCellData (convertSheet exampleHelpers (exampleKey 0) 0 exampleWorksheet)) 0 1 = None"
proof -
  let ?sh = "convertSheet exampleHelpers (exampleKey 0) 0 exampleWorksheet"
  have stored: "sheets (importWorkbook exampleHelpers exampleKey [Some exampleWorksheet]) (exampleKey 0) =
      Some ?sh"
    by (simp add: sheets_importWorkbook visited_def)
  have present: "cellOf (sheetCellData ?sh) 0 2 =
     Some \<lparr> cellV = Some (JStr []), cellT = None, cellF = Some ''=SUM(A1:A3)'', cellP = None,
            cellLink = None, cellS = None \<rparr>"
    by code_simp
  have absent: "cellOf (sheetCellData ?sh) 0 1 = None"
    by code_simp
  from cellData_is_sparse [OF stored present] present absent show ?thesis by simp
qed


text \<open>
  C8 on the small workbook: two worksheets, the second without cells, give two keys in
  the order of the source, and the second key leads to the second sheet.
\<close>

theorem sheetOrder_matches_worksheets_witness:
  "sheetOrder (importWorkbook exampleHelpers exampleKey [Some exampleWorksheet, Some emptyWorksheet]) =
     [''sheet-0'', ''sheet-1''] \<and>
   sheets (importWorkbook exampleHelpers exampleKey [Some exampleWorksheet, Some emptyWorksheet])
     ''sheet-1'' = Some (convertSheet exampleHelpers ''sheet-1'' 1 emptyWorksheet)"
proof -
  let ?wb = "importWorkbook exampleHelpers exampleKey [Some exampleWorksheet, Some emptyWorksheet]"
  have vis: "visited [Some exampleWorksheet, Some emptyWorksheet] =
      [(0, exampleWorksheet), (1, emptyWorksheet)]"
    by (simp add: visited_def)
  have keys: "exampleKey 0 = ''sheet-0''" "exampleKey 1 = ''sheet-1''"
    "exampleKey (Suc 0) = ''sheet-1''"
    by code_simp+
  note claim = sheetOrder_matches_worksheets
    [of exampleHelpers exampleKey "[Some exampleWorksheet, Some emptyWorksheet]"]
  from claim [THEN conjunct1] have order: "sheetOrder ?wb = [''sheet-0'', ''sheet-1'']"
    unfolding vis by (simp add: keys)
  have dist: "distinct (sheetOrder ?wb)"
    unfolding order by simp
  have len: "1 < length (visited [Some exampleWorksheet, Some emptyWorksheet])"
    unfolding vis by simp
  from claim [THEN conjunct2, THEN conjunct2, rule_format, OF dist len]
  have "sheets ?wb (sheetOrder ?wb ! 1) =
      Some (convertSheet exampleHelpers (exampleKey 1) 1 emptyWorksheet)"
    unfolding vis by simp
  then show ?thesis
    unfolding order by (simp add: keys)
qed

section \<open>Properties of the calendar\<close>




section \<open>Properties of the date engine\<close>







lemma truncate_of_int: "truncate (real_of_int k) = k"
  by (simp add: truncate_def)

lemma excelEpochTime_value: "excelEpochTime = - 2209161600000"
proof -
  have "DateUTC 1899 11 30 = Some (- 2209161600000)" by code_simp
  moreover have "truncate (- 2209161600000) = - 2209161600000"
    using truncate_of_int [of "- 2209161600000"] by simp
  ultimately show ?thesis
    by (simp add: excelEpochTime_def excelEpoch_def newDate_def getTime_def)
qed





section \<open>Properties of the dates as text\<close>





























end
